theory Spec2Isabelle
  imports Complex_Main
begin

section \<open>Silent Council: negotiation and settlement engine\<close>

text \<open>
  A shallow embedding of the council engine's TypeScript sources: the task and grade model
  (\<^verbatim>\<open>types.ts\<close>), the escrow operations of the schedule engine, vote tallying and
  forced convergence (\<^verbatim>\<open>negotiation-engine.ts\<close>), speaker selection
  (\<^verbatim>\<open>theater-engine.ts\<close>), the collapse engine (\<^verbatim>\<open>collapse-engine.ts\<close>), the
  settlement engine and the collapse phase of the orchestrator.

  Conventions of the embedding.
  \<^item> A JavaScript \<^verbatim>\<open>number\<close> is a rational (\<^typ>\<open>rat\<close>): arithmetic is exact, and
    \<^verbatim>\<open>NaN\<close>, the infinities and binary rounding error are outside the model.
  \<^item> \<^verbatim>\<open>Math.random()\<close> reads a draw source that is passed in and handed back.
  \<^item> A thrown \<^verbatim>\<open>TypeError\<close> is the left injection of a sum type.
  \<^item> Fields that only carry display text (names, narratives, icons, timestamps) are
    left out of the records; every field that takes part in a decision is kept.
  \<^item> Where two source interfaces share a field name, the record fields carry a short
    prefix, since record fields are global constants.
\<close>

subsection \<open>Numbers\<close>

definition Math_round :: "rat \<Rightarrow> rat" where
  \<comment> \<open>\<^verbatim>\<open>Math.round\<close>: the nearest integer, a tie going up.\<close>
  "Math_round x = of_int \<lfloor>x + 1 / 2\<rfloor>"

definition Math_floor :: "rat \<Rightarrow> int" where
  "Math_floor x = \<lfloor>x\<rfloor>"

subsection \<open>Agents, grades and tasks (types.ts, agents.ts)\<close>

datatype AgentId = ENTJ | ISFJ | INFJ | ESTP

definition ALL_AGENT_IDS :: "AgentId list" where
  "ALL_AGENT_IDS = [ENTJ, ISFJ, INFJ, ESTP]"

datatype AgentStatus =
  IDLE | ACTIVE | SPEAKING | TRADING | VETOING | SANCTIONED | WHISPERING

record ResourceInventory =
  res_TIME :: rat
  res_HP :: rat
  res_SOC :: rat
  res_WLTH :: rat

record AgentState =
  as_id :: AgentId
  currentWeight :: rat
  resourceInventory :: ResourceInventory
  status :: AgentStatus
  satisfaction :: rat
  influence :: rat
  isSanctioned :: bool

definition DEFAULT_RESOURCE_INVENTORY :: ResourceInventory where
  "DEFAULT_RESOURCE_INVENTORY = \<lparr>res_TIME = 16, res_HP = 100, res_SOC = 50, res_WLTH = 500\<rparr>"

definition createDefaultAgentState :: "AgentId \<Rightarrow> AgentState" where
  "createDefaultAgentState i =
     \<lparr>as_id = i, currentWeight = 1, resourceInventory = DEFAULT_RESOURCE_INVENTORY,
      status = IDLE, satisfaction = 50, influence = 25, isSanctioned = False\<rparr>"

definition createAllAgentStates :: "AgentState list" where
  "createAllAgentStates = map createDefaultAgentState ALL_AGENT_IDS"

datatype TaskGrade = Grade_S | Grade_A | Grade_B | Grade_C | Grade_D

datatype EscrowState = PENDING | FROZEN | RELEASED | BURNED

datatype DigitalTaskCategory =
  SLEEP_AI | WORK_AI | ENTERTAIN_AI | SOCIAL_AI | SAVINGS_AI | GAMING_AI | HEALTH_AI
  | LEARNING_AI | SYSTEM_CAT

record ScheduleBlock =
  b_id :: string
  b_category :: DigitalTaskCategory
  b_taskName :: string
  tokenCost :: rat
  b_isDeadline :: bool
  isLocked :: bool
  b_ownerAgent :: AgentId
  escrowState :: "EscrowState option"
  b_finalGrade :: "TaskGrade option"

fun LEVEL_COST_MULTIPLIERS :: "TaskGrade \<Rightarrow> rat" where
  "LEVEL_COST_MULTIPLIERS Grade_D = 0"
| "LEVEL_COST_MULTIPLIERS Grade_C = 1 / 5"
| "LEVEL_COST_MULTIPLIERS Grade_B = 1 / 2"
| "LEVEL_COST_MULTIPLIERS Grade_A = 1"
| "LEVEL_COST_MULTIPLIERS Grade_S = 2"

record TaskLevelCosts =
  cost_C :: rat
  cost_B :: rat
  cost_A :: rat
  cost_S :: rat

definition getTaskLevelCosts :: "rat \<Rightarrow> TaskLevelCosts" where
  "getTaskLevelCosts baseTokenCost =
     \<lparr>cost_C = Math_round (baseTokenCost * (1 / 5)),
      cost_B = Math_round (baseTokenCost * (1 / 2)),
      cost_A = Math_round (baseTokenCost * 1),
      cost_S = Math_round (baseTokenCost * 2)\<rparr>"

subsection \<open>Escrow operations (schedule engine)\<close>

definition freezeEscrow :: "ScheduleBlock list \<Rightarrow> ScheduleBlock list" where
  "freezeEscrow blocks =
     map (\<lambda>b. b\<lparr>escrowState :=
                  (if escrowState b = Some RELEASED \<or> escrowState b = Some BURNED
                   then escrowState b else Some FROZEN)\<rparr>) blocks"

fun release_gradeMultiplier :: "TaskGrade \<Rightarrow> rat" where
  "release_gradeMultiplier Grade_S = 2"
| "release_gradeMultiplier Grade_A = 3 / 2"
| "release_gradeMultiplier Grade_B = 1"
| "release_gradeMultiplier Grade_C = 1 / 2"
| "release_gradeMultiplier Grade_D = 0"

definition releaseEscrow :: "ScheduleBlock \<Rightarrow> TaskGrade \<Rightarrow> ScheduleBlock" where
  "releaseEscrow block grade =
     block\<lparr>escrowState := Some RELEASED,
           b_finalGrade := Some grade,
           tokenCost := Math_round (tokenCost block * release_gradeMultiplier grade)\<rparr>"

text \<open>One escrow operation on a single block, and a sequence of them.\<close>

datatype EscrowOp = Freeze | Release TaskGrade

fun escrow_step :: "ScheduleBlock \<Rightarrow> EscrowOp \<Rightarrow> ScheduleBlock" where
  "escrow_step b Freeze = hd (freezeEscrow [b])"
| "escrow_step b (Release g) = releaseEscrow b g"

definition escrow_run :: "ScheduleBlock \<Rightarrow> EscrowOp list \<Rightarrow> ScheduleBlock" where
  "escrow_run b ops = foldl escrow_step b ops"

subsection \<open>Vote tallying (negotiation-engine.ts)\<close>

datatype Vote = APPROVE | REJECT | ABSTAIN | VETO

record VoteEntry =
  vote :: Vote
  weight :: rat

datatype TallyResult = APPROVED | REJECTED | VETOED | DEADLOCKED

record VoteResult =
  proposalId :: string
  votes :: "(AgentId \<times> VoteEntry) list"
  result :: TallyResult
  vetoAgent :: "AgentId option"
  approvalScore :: rat
  totalWeight :: rat






subsection \<open>The random source\<close>

type_synonym rng = "nat \<Rightarrow> rat"

definition Math_random :: "rng \<Rightarrow> rat \<times> rng" where
  \<comment> \<open>\<^verbatim>\<open>Math.random()\<close> yields a number in [0, 1): a source value outside that range is
     read as 0, so that every draw honours the contract.\<close>
  "Math_random r = ((if 0 \<le> r 0 \<and> r 0 < 1 then r 0 else 0), (\<lambda>n. r (Suc n)))"

definition random_index :: "rat \<Rightarrow> nat \<Rightarrow> nat" where
  \<comment> \<open>\<^verbatim>\<open>Math.floor(Math.random() * len)\<close>\<close>
  "random_index d len = nat (Math_floor (d * of_nat len))"

subsection \<open>The roll (settlement engine)\<close>

datatype RNGResultType = CRITICAL_SUCCESS | SUCCESS | BARELY_PASSED | CRITICAL_FAIL

record RNGStatChanges =
  sc_SOC :: "rat option"
  sc_HP :: "rat option"

record RNGResult =
  rng_type :: RNGResultType
  rng_score :: rat
  rng_luck :: rat
  rng_statChanges :: RNGStatChanges
  rng_narrative :: nat

fun RNG_NARRATIVES_length :: "RNGResultType \<Rightarrow> nat" where
  "RNG_NARRATIVES_length CRITICAL_SUCCESS = 4"
| "RNG_NARRATIVES_length SUCCESS = 3"
| "RNG_NARRATIVES_length BARELY_PASSED = 3"
| "RNG_NARRATIVES_length CRITICAL_FAIL = 3"

definition roll_luck :: "rat \<Rightarrow> rat \<Rightarrow> rat" where
  "roll_luck d luckModifier = max (- (1 / 2)) (min (1 / 2) ((- (1 / 2) + d) + luckModifier))"

definition roll_score :: "rat \<Rightarrow> TaskGrade \<Rightarrow> rat \<Rightarrow> rat" where
  "roll_score tokenInvested grade luck =
     Math_round (tokenInvested * LEVEL_COST_MULTIPLIERS grade * (1 + luck))"

definition roll_outcome :: "rat \<Rightarrow> rat \<Rightarrow> RNGResultType \<times> RNGStatChanges" where
  \<comment> \<open>the threshold cascade; \<^verbatim>\<open>RNG_THRESHOLDS\<close> is 1.5, 0.5 and 0\<close>
  "roll_outcome tokenInvested score =
     (let criticalThreshold = max 250 (tokenInvested * (3 / 2)) in
      if score > criticalThreshold
        then (CRITICAL_SUCCESS, \<lparr>sc_SOC = Some 10, sc_HP = Some 5\<rparr>)
      else if score > tokenInvested * (1 / 2)
        then (SUCCESS, \<lparr>sc_SOC = None, sc_HP = None\<rparr>)
      else if score > 0
        then (BARELY_PASSED, \<lparr>sc_SOC = None, sc_HP = Some (- 5)\<rparr>)
      else (CRITICAL_FAIL, \<lparr>sc_SOC = None, sc_HP = Some (- 20)\<rparr>))"

definition rollEnhanced :: "rat \<Rightarrow> TaskGrade \<Rightarrow> rat \<Rightarrow> rng \<Rightarrow> RNGResult \<times> rng" where
  "rollEnhanced tokenInvested grade luckModifier r0 =
     (case Math_random r0 of (d1, r1) \<Rightarrow>
        let luck = roll_luck d1 luckModifier;
            score = roll_score tokenInvested grade luck;
            (ty, changes) = roll_outcome tokenInvested score;
            (ty', changes') =
              (if grade = Grade_D \<or> tokenInvested \<le> 0
               then (CRITICAL_FAIL, changes\<lparr>sc_HP := Some (- 20)\<rparr>)
               else (ty, changes))
        in case Math_random r1 of (d2, r2) \<Rightarrow>
             (\<lparr>rng_type = ty', rng_score = score, rng_luck = luck,
               rng_statChanges = changes',
               rng_narrative = random_index d2 (RNG_NARRATIVES_length ty')\<rparr>, r2))"


subsection \<open>Collapse results and trades (types.ts)\<close>

record TradeOffer =
  offer_taskId :: string
  downgradeFrom :: TaskGrade
  downgradeTo :: TaskGrade
  tokenFreed :: rat

record TradeDemand =
  demand_taskId :: string
  upgradeFrom :: TaskGrade
  upgradeTo :: TaskGrade
  tokenNeeded :: rat

record TradeProposal =
  sourceAgent :: AgentId
  targetAgent :: AgentId
  offer :: TradeOffer
  demand :: TradeDemand
  riskScore :: rat
  benefitScore :: rat
  accepted :: bool

record CollapseResult =
  cr_taskId :: string
  cr_taskName :: string
  cr_ownerAgent :: AgentId
  cr_category :: "DigitalTaskCategory option"
  initialGrade :: TaskGrade
  finalGrade :: TaskGrade
  tokenInvested :: rat
  levelCosts :: TaskLevelCosts
  tradedWith :: "AgentId option"
  cr_isDeadline :: bool

subsection \<open>Event cards (settlement engine)\<close>

datatype EventCardType =
  EC_CRITICAL_SUCCESS | EC_SUCCESS | EC_BARELY_PASSED | EC_CRITICAL_FAIL
  | SPECIAL_ITEM | COMBO_BONUS | MELTDOWN_RECOVERY

fun as_EventCardType :: "RNGResultType \<Rightarrow> EventCardType" where
  "as_EventCardType CRITICAL_SUCCESS = EC_CRITICAL_SUCCESS"
| "as_EventCardType SUCCESS = EC_SUCCESS"
| "as_EventCardType BARELY_PASSED = EC_BARELY_PASSED"
| "as_EventCardType CRITICAL_FAIL = EC_CRITICAL_FAIL"

datatype SpecialItem = TIME_SHARD | LUCK_CHARM | SHIELD | COFFEE | INSPIRE | SOCIAL_BOOST

definition SPECIAL_ITEMS :: "SpecialItem list" where
  "SPECIAL_ITEMS = [TIME_SHARD, LUCK_CHARM, SHIELD, COFFEE, INSPIRE, SOCIAL_BOOST]"

datatype CardRarity = common | rare | epic | legendary

record StatChanges =
  professional :: rat
  social :: rat
  sanity :: rat
  wealth :: rat

record EventCard =
  ec_type :: EventCardType
  ec_taskId :: string
  ec_ownerAgent :: AgentId
  ec_grade :: TaskGrade
  ec_score :: rat
  ec_luck :: rat
  ec_statChanges :: StatChanges
  specialItems :: "SpecialItem list"
  ec_narrative :: nat
  cardRarity :: CardRarity

definition determineCardRarity :: "RNGResultType \<Rightarrow> TaskGrade \<Rightarrow> CardRarity" where
  "determineCardRarity rngType grade =
     (if rngType = CRITICAL_SUCCESS \<and> (grade = Grade_S \<or> grade = Grade_A) then legendary
      else if rngType = CRITICAL_SUCCESS then epic
      else if rngType = SUCCESS \<and> grade = Grade_S then epic
      else if rngType = SUCCESS then rare
      else if rngType = CRITICAL_FAIL then rare
      else common)"

fun base_changes :: "RNGResultType \<Rightarrow> StatChanges" where
  "base_changes CRITICAL_SUCCESS = \<lparr>professional = 5, social = 10, sanity = 5, wealth = 20\<rparr>"
| "base_changes SUCCESS = \<lparr>professional = 3, social = 0, sanity = 0, wealth = 5\<rparr>"
| "base_changes BARELY_PASSED = \<lparr>professional = - 5, social = 0, sanity = - 3, wealth = 0\<rparr>"
| "base_changes CRITICAL_FAIL = \<lparr>professional = - 10, social = 0, sanity = - 20, wealth = - 10\<rparr>"

fun stat_gradeMultipliers :: "TaskGrade \<Rightarrow> rat" where
  "stat_gradeMultipliers Grade_S = 2"
| "stat_gradeMultipliers Grade_A = 3 / 2"
| "stat_gradeMultipliers Grade_B = 1"
| "stat_gradeMultipliers Grade_C = 1 / 2"
| "stat_gradeMultipliers Grade_D = 1 / 10"

definition calculateStatChanges :: "RNGResultType \<Rightarrow> TaskGrade \<Rightarrow> AgentId \<Rightarrow> StatChanges" where
  "calculateStatChanges ty grade agent =
     (let c0 = base_changes ty;
          m = stat_gradeMultipliers grade;
          c1 = c0\<lparr>professional := Math_round (professional c0 * m),
                  social := Math_round (social c0 * m),
                  wealth := Math_round (wealth c0 * m)\<rparr>
      in case agent of
           ENTJ \<Rightarrow> c1\<lparr>professional := Math_round (professional c1 * (13 / 10))\<rparr>
         | ISFJ \<Rightarrow> c1\<lparr>sanity := Math_round (sanity c1 * (6 / 5)),
                       wealth := Math_round (wealth c1 * (13 / 10))\<rparr>
         | INFJ \<Rightarrow> c1\<lparr>social := Math_round (social c1 * (3 / 2))\<rparr>
         | ESTP \<Rightarrow>
             (if ty = CRITICAL_SUCCESS then c1\<lparr>wealth := Math_round (wealth c1 * (3 / 2))\<rparr>
              else if ty = CRITICAL_FAIL then c1\<lparr>wealth := Math_round (wealth c1 * (3 / 2))\<rparr>
              else c1))"

fun dropChance :: "TaskGrade \<Rightarrow> rat" where
  "dropChance Grade_S = 1"
| "dropChance Grade_A = 3 / 5"
| "dropChance Grade_B = 3 / 10"
| "dropChance Grade_C = 1 / 10"
| "dropChance Grade_D = 0"

definition rollSpecialItems :: "RNGResultType \<Rightarrow> TaskGrade \<Rightarrow> rng \<Rightarrow> SpecialItem list \<times> rng" where
  "rollSpecialItems ty grade r0 =
     (if ty \<noteq> CRITICAL_SUCCESS then ([], r0)
      else case Math_random r0 of (d1, r1) \<Rightarrow>
        if d1 > dropChance grade then ([], r1)
        else case Math_random r1 of (d2, r2) \<Rightarrow>
          let item = SPECIAL_ITEMS ! random_index d2 (length SPECIAL_ITEMS) in
          if grade \<noteq> Grade_S then ([item], r2)
          else case Math_random r2 of (d3, r3) \<Rightarrow>
            if d3 < 3 / 10
            then case Math_random r3 of (d4, r4) \<Rightarrow>
              ([item, filter (\<lambda>i. i \<noteq> item) SPECIAL_ITEMS
                        ! random_index d4 (length SPECIAL_ITEMS - 1)], r4)
            else ([item], r3))"

definition generateEventCard :: "CollapseResult \<Rightarrow> rat \<Rightarrow> rng \<Rightarrow> EventCard \<times> rng" where
  \<comment> \<open>after the roll and the item draws: one draw for the subtitle, two for the result
     description, one for the card id\<close>
  "generateEventCard collapse luckModifier r0 =
     (case rollEnhanced (tokenInvested collapse) (finalGrade collapse) luckModifier r0 of
        (rngResult, r1) \<Rightarrow>
          case rollSpecialItems (rng_type rngResult) (finalGrade collapse) r1 of
            (items, r2) \<Rightarrow>
              (\<lparr>ec_type = (if length items > 0 then SPECIAL_ITEM
                            else as_EventCardType (rng_type rngResult)),
                ec_taskId = cr_taskId collapse,
                ec_ownerAgent = cr_ownerAgent collapse,
                ec_grade = finalGrade collapse,
                ec_score = rng_score rngResult,
                ec_luck = rng_luck rngResult,
                ec_statChanges =
                  calculateStatChanges (rng_type rngResult) (finalGrade collapse)
                    (cr_ownerAgent collapse),
                specialItems = items,
                ec_narrative = rng_narrative rngResult,
                cardRarity = determineCardRarity (rng_type rngResult) (finalGrade collapse)\<rparr>,
               snd (Math_random (snd (Math_random (snd (Math_random (snd (Math_random r2)))))))))"

fun generateEventCards :: "CollapseResult list \<Rightarrow> rat \<Rightarrow> rng \<Rightarrow> EventCard list \<times> rng" where
  \<comment> \<open>\<^verbatim>\<open>collapseResults.map(cr => generateEventCard(cr, luckModifier))\<close>, left to right\<close>
  "generateEventCards [] luckModifier r = ([], r)"
| "generateEventCards (cr # crs) luckModifier r =
     (case generateEventCard cr luckModifier r of
        (ecard, r') \<Rightarrow>
          case generateEventCards crs luckModifier r' of
            (ecards, r'') \<Rightarrow> (ecard # ecards, r''))"

record ComboBonus =
  comboCount :: nat
  bonusStats :: StatChanges
  bonusItem :: "SpecialItem option"

definition calculateComboBonus :: "EventCard list \<Rightarrow> ComboBonus" where
  "calculateComboBonus cards =
     (let successStreak =
            length (filter (\<lambda>c. ec_type c = EC_CRITICAL_SUCCESS \<or> ec_type c = EC_SUCCESS) cards)
      in if successStreak < 2
         then \<lparr>comboCount = 0,
               bonusStats = \<lparr>professional = 0, social = 0, sanity = 0, wealth = 0\<rparr>,
               bonusItem = None\<rparr>
         else let comboMultiplier = of_nat (min 3 (successStreak - 1)) in
              \<lparr>comboCount = successStreak,
               bonusStats = \<lparr>professional = 5 * comboMultiplier, social = 3 * comboMultiplier,
                             sanity = 2 * comboMultiplier, wealth = 10 * comboMultiplier\<rparr>,
               bonusItem = (if successStreak \<ge> 3 then Some INSPIRE else None)\<rparr>)"

fun type_points :: "EventCardType \<Rightarrow> rat" where
  "type_points EC_CRITICAL_SUCCESS = 30"
| "type_points EC_SUCCESS = 15"
| "type_points EC_BARELY_PASSED = 5"
| "type_points EC_CRITICAL_FAIL = - 20"
| "type_points _ = 0"

fun gradeBonus :: "TaskGrade \<Rightarrow> rat" where
  "gradeBonus Grade_S = 10"
| "gradeBonus Grade_A = 7"
| "gradeBonus Grade_B = 4"
| "gradeBonus Grade_C = 1"
| "gradeBonus Grade_D = - 5"

definition calculateOverallGrade :: "EventCard list \<Rightarrow> StatChanges \<Rightarrow> bool \<Rightarrow> TaskGrade" where
  "calculateOverallGrade cards statDelta meltdown =
     (if meltdown then Grade_D
      else
        let score0 = fold (\<lambda>c s. s + type_points (ec_type c) + gradeBonus (ec_grade c))
                       cards 0;
            totalStatChange =
              professional statDelta + social statDelta + sanity statDelta + wealth statDelta;
            score = score0 + Math_round (totalStatChange / 10);
            avgScore = (if length cards > 0 then score / of_nat (length cards) else 0)
        in if avgScore \<ge> 30 then Grade_S
           else if avgScore \<ge> 18 then Grade_A
           else if avgScore \<ge> 8 then Grade_B
           else if avgScore \<ge> 0 then Grade_C
           else Grade_D)"

record TokenSettlement =
  ts_totalBudget :: rat
  totalSpent :: rat
  totalRemaining :: rat
  surplus :: rat
  carryOver :: rat
  meltdownOccurred :: bool

record SettlementInput =
  in_collapseResults :: "CollapseResult list"
  in_trades :: "TradeProposal list"
  in_agentStates :: "AgentState list"
  in_totalBudget :: rat
  in_luckModifier :: "rat option"

record SettlementReport =
  overallGrade :: TaskGrade
  collapseResults :: "CollapseResult list"
  eventCards :: "EventCard list"
  trades :: "TradeProposal list"
  tokenSettlement :: TokenSettlement
  statDelta :: StatChanges
  itemsEarned :: "SpecialItem list"
  deliverable_levels :: "TaskGrade list"

definition add_stats :: "StatChanges \<Rightarrow> StatChanges \<Rightarrow> StatChanges" where
  "add_stats d c =
     \<lparr>professional = professional d + professional c, social = social d + social c,
      sanity = sanity d + sanity c, wealth = wealth d + wealth c\<rparr>"

definition buildSettlementReport :: "SettlementInput \<Rightarrow> rng \<Rightarrow> SettlementReport" where
  "buildSettlementReport input r0 =
     (let crs = in_collapseResults input;
          budget = in_totalBudget input;
          luckModifier = (case in_luckModifier input of None \<Rightarrow> 0 | Some m \<Rightarrow> m);
          cards = fst (generateEventCards crs luckModifier r0);
          combo = calculateComboBonus cards;
          delta0 = fold (\<lambda>c d. add_stats d (ec_statChanges c)) cards
                     \<lparr>professional = 0, social = 0, sanity = 0, wealth = 0\<rparr>;
          delta = add_stats delta0 (bonusStats combo);
          spent = fold (\<lambda>cr s. s + tokenInvested cr) crs 0;
          remaining = max 0 (budget - spent);
          carry = Math_round (remaining * (1 / 2));
          meltdown = (spent > budget * (6 / 5));
          items = concat (map specialItems cards)
                    @ (case bonusItem combo of None \<Rightarrow> [] | Some i \<Rightarrow> [i])
      in \<lparr>overallGrade = calculateOverallGrade cards delta meltdown,
          collapseResults = crs,
          eventCards = cards,
          trades = in_trades input,
          tokenSettlement =
            \<lparr>ts_totalBudget = budget, totalSpent = spent, totalRemaining = remaining,
             surplus = remaining, carryOver = carry, meltdownOccurred = meltdown\<rparr>,
          statDelta = delta,
          itemsEarned = items,
          deliverable_levels =
            map finalGrade (filter (\<lambda>cr. finalGrade cr \<noteq> Grade_D) crs)\<rparr>)"

subsection \<open>Sorting with a comparator\<close>

text \<open>
  \<^verbatim>\<open>Array.prototype.sort\<close> is stable; for a comparator that is a total preorder the
  result is the one stable ordering, which insertion from the right computes.
\<close>

fun insert_by :: "('a \<Rightarrow> 'a \<Rightarrow> rat) \<Rightarrow> 'a \<Rightarrow> 'a list \<Rightarrow> 'a list" where
  "insert_by cmp x [] = [x]"
| "insert_by cmp x (y # ys) = (if cmp x y \<le> 0 then x # y # ys else y # insert_by cmp x ys)"

definition js_sort :: "('a \<Rightarrow> 'a \<Rightarrow> rat) \<Rightarrow> 'a list \<Rightarrow> 'a list" where
  "js_sort cmp xs = foldr (insert_by cmp) xs []"

text \<open>\<^verbatim>\<open>Math.max(...xs)\<close> and \<^verbatim>\<open>Math.min(...xs)\<close>; \<open>None\<close> is the infinity of an empty list.\<close>

fun Math_max :: "rat list \<Rightarrow> rat option" where
  "Math_max [] = None"
| "Math_max (x # xs) = (case Math_max xs of None \<Rightarrow> Some x | Some m \<Rightarrow> Some (max x m))"

fun Math_min :: "rat list \<Rightarrow> rat option" where
  "Math_min [] = None"
| "Math_min (x # xs) = (case Math_min xs of None \<Rightarrow> Some x | Some m \<Rightarrow> Some (min x m))"

subsection \<open>Forced convergence (negotiation-engine.ts)\<close>

datatype js_error = TypeError

datatype ConvergenceAction =
  NoAction
  | Equilibrium (eq_round: rat) (eq_variance: rat) (eq_dominant: AgentId) (eq_weight: rat)
  | MaxRoundsReached (mr_round: rat) (mr_dominant: AgentId) (mr_weight: rat)

record ConvergenceResult =
  shouldForce :: bool
  convergenceAction :: ConvergenceAction

definition dominance_cmp :: "AgentState \<Rightarrow> AgentState \<Rightarrow> rat" where
  "dominance_cmp a b =
     (let wDiff = currentWeight b - currentWeight a in
      if wDiff \<noteq> 0 then wDiff else satisfaction b - satisfaction a)"

definition satisfactionStable :: "AgentState list \<Rightarrow> bool \<times> rat" where
  \<comment> \<open>On an empty list the average is \<^verbatim>\<open>0/0\<close>, the variance is \<^verbatim>\<open>NaN\<close> and the test
     \<^verbatim>\<open>variance < 15\<close> is false.\<close>
  "satisfactionStable agentStates =
     (let satisfactions = map satisfaction agentStates in
      case (Math_max satisfactions, Math_min satisfactions) of
        (Some maxSat, Some minSat) \<Rightarrow>
          let n = of_nat (length satisfactions);
              avgSat = fold (\<lambda>s acc. acc + s) satisfactions 0 / n;
              variance = fold (\<lambda>s acc. acc + (s - avgSat)\<^sup>2) satisfactions 0 / n
          in (variance < 15 \<and> maxSat - minSat < 20, variance)
      | _ \<Rightarrow> (False, 0))"

definition weightStable :: "AgentState list \<Rightarrow> AgentState list option \<Rightarrow> bool" where
  "weightStable agentStates previousStates =
     (case previousStates of
        None \<Rightarrow> False
      | Some prevs \<Rightarrow>
          if length prevs = length agentStates
          then (case Math_max (map (\<lambda>curr.
                       case find (\<lambda>p. as_id p = as_id curr) prevs of
                         Some prev \<Rightarrow> \<bar>currentWeight curr - currentWeight prev\<bar>
                       | None \<Rightarrow> 1) agentStates) of
                  None \<Rightarrow> True
                | Some maxWeightChange \<Rightarrow> maxWeightChange < 3 / 20)
          else False)"

definition forceConvergence ::
  "AgentState list \<Rightarrow> rat \<Rightarrow> rat \<Rightarrow> rat \<Rightarrow> AgentState list option
     \<Rightarrow> js_error + ConvergenceResult" where
  "forceConvergence agentStates round' maxRounds minRounds previousStates =
     (if round' < minRounds
      then Inr \<lparr>shouldForce = False, convergenceAction = NoAction\<rparr>
      else if round' < maxRounds
      then (case satisfactionStable agentStates of (satStable, variance) \<Rightarrow>
              if satStable \<and> weightStable agentStates previousStates
              then (case js_sort dominance_cmp agentStates of
                      [] \<Rightarrow> Inl TypeError
                    | dominant # _ \<Rightarrow>
                        Inr \<lparr>shouldForce = True,
                             convergenceAction =
                               Equilibrium round' variance (as_id dominant)
                                 (currentWeight dominant)\<rparr>)
              else Inr \<lparr>shouldForce = False, convergenceAction = NoAction\<rparr>)
      else (case js_sort dominance_cmp agentStates of
              [] \<Rightarrow> Inl TypeError
            | dominant # _ \<Rightarrow>
                Inr \<lparr>shouldForce = True,
                     convergenceAction =
                       MaxRoundsReached round' (as_id dominant) (currentWeight dominant)\<rparr>))"

definition returns_shouldForce :: "js_error + ConvergenceResult \<Rightarrow> bool \<Rightarrow> bool" where
  "returns_shouldForce res b = (case res of Inl _ \<Rightarrow> False | Inr c \<Rightarrow> shouldForce c = b)"

subsection \<open>Speaker selection (theater-engine.ts)\<close>

datatype LogType =
  LT_SYSTEM | LT_SPEECH | LT_PROPOSAL | LT_COUNTER | LT_VETO | LT_CONSENSUS | LT_NARRATION
  | LT_WHISPER | LT_BOTTOM_LINE_ALERT

record CouncilLogEntry =
  log_agentId :: "AgentId option"
  log_type :: LogType

datatype SpeakerReason = Rotation | Controversy

record SpeakerSelection =
  speaker :: AgentId
  reason :: SpeakerReason

definition slice_last :: "nat \<Rightarrow> 'a list \<Rightarrow> 'a list" where
  \<comment> \<open>\<^verbatim>\<open>xs.slice(-n)\<close>\<close>
  "slice_last n xs = drop (length xs - n) xs"

definition recentSpeakers :: "CouncilLogEntry list \<Rightarrow> AgentId list" where
  "recentSpeakers recentLogs = List.map_filter log_agentId (slice_last 2 recentLogs)"

definition conflictAgents :: "CouncilLogEntry list \<Rightarrow> AgentId list" where
  \<comment> \<open>the \<^verbatim>\<open>Set\<close> in insertion order: each agent once, at its first occurrence\<close>
  "conflictAgents recentLogs =
     rev (remdups (rev (List.map_filter
       (\<lambda>l. if log_type l = LT_COUNTER \<or> log_type l = LT_VETO then log_agentId l else None)
       (slice_last 6 recentLogs))))"

definition selectSpeakerForTick ::
  "nat \<Rightarrow> AgentState list \<Rightarrow> CouncilLogEntry list \<Rightarrow> SpeakerSelection" where
  \<comment> \<open>the tick is the clock's counter, a natural number\<close>
  "selectSpeakerForTick tick agentStates recentLogs =
     (let allIds = [ENTJ, ISFJ, INFJ, ESTP];
          baseIdx = tick mod length allIds;
          recent = recentSpeakers recentLogs;
          speaker0 = (if allIds ! baseIdx \<in> set recent
                      then allIds ! ((baseIdx + 1) mod length allIds)
                      else allIds ! baseIdx);
          rotation = \<lparr>speaker = speaker0, reason = Rotation\<rparr>
      in if tick mod 7 = 0
         then (let conflicts = conflictAgents recentLogs in
               if length conflicts > 0 \<and> speaker0 \<notin> set recent
               then (case find (\<lambda>a. a \<notin> set recent) conflicts of
                       Some conflictSpeaker \<Rightarrow>
                         \<lparr>speaker = conflictSpeaker, reason = Controversy\<rparr>
                     | None \<Rightarrow> rotation)
               else rotation)
         else rotation)"

subsection \<open>The collapse engine (collapse-engine.ts)\<close>

record UserProfile =
  mbtiType :: "string option"
  rigidityCoefficient :: rat

record CouncilContext =
  agentStates :: "AgentState list"
  userProfile :: UserProfile
  scheduleBlocks :: "ScheduleBlock list option"

record TaskMeta =
  tm_block :: ScheduleBlock
  tm_levelCosts :: TaskLevelCosts
  tm_ownerAgent :: AgentId

record GradeInfo =
  gi_grade :: TaskGrade
  tokenSpent :: rat

type_synonym GradeMap = "string \<rightharpoonup> GradeInfo"

fun gradeRank :: "TaskGrade \<Rightarrow> rat" where
  "gradeRank Grade_S = 4"
| "gradeRank Grade_A = 3"
| "gradeRank Grade_B = 2"
| "gradeRank Grade_C = 1"
| "gradeRank Grade_D = 0"

fun lowerGrade :: "TaskGrade \<Rightarrow> TaskGrade" where
  "lowerGrade Grade_S = Grade_A"
| "lowerGrade Grade_A = Grade_B"
| "lowerGrade Grade_B = Grade_C"
| "lowerGrade Grade_C = Grade_D"
| "lowerGrade Grade_D = Grade_D"

fun level_cost :: "TaskLevelCosts \<Rightarrow> TaskGrade \<Rightarrow> rat" where
  \<comment> \<open>\<^verbatim>\<open>levelCosts[g].cost\<close>; the table has no entry for D, and the one caller skips D
     before the lookup\<close>
  "level_cost costs Grade_S = cost_S costs"
| "level_cost costs Grade_A = cost_A costs"
| "level_cost costs Grade_B = cost_B costs"
| "level_cost costs Grade_C = cost_C costs"
| "level_cost costs Grade_D = 0"

definition calculateAgentBudgets :: "AgentState list \<Rightarrow> rat \<Rightarrow> AgentId \<Rightarrow> rat" where
  "calculateAgentBudgets agents totalBudget =
     (let weightSum = fold (\<lambda>a s. s + currentWeight a) agents 0;
          totalWeight = (if weightSum = 0 then 1 else weightSum)
      in fold (\<lambda>agent budgets.
                 let satMultiplier = 1 / 2 + (satisfaction agent / 100) * (1 / 2);
                     weightRatio = currentWeight agent / totalWeight
                 in budgets(as_id agent := Math_round (totalBudget * weightRatio * satMultiplier)))
           agents (\<lambda>_. 0))"

definition task_priority_cmp :: "TaskMeta \<Rightarrow> TaskMeta \<Rightarrow> rat" where
  "task_priority_cmp a b =
     (if b_isDeadline (tm_block a) \<and> \<not> b_isDeadline (tm_block b) then - 1
      else if \<not> b_isDeadline (tm_block a) \<and> b_isDeadline (tm_block b) then 1
      else tokenCost (tm_block b) - tokenCost (tm_block a))"

fun allocate_step :: "TaskMeta \<Rightarrow> GradeMap \<times> rat \<Rightarrow> GradeMap \<times> rat" where
  "allocate_step tm (grades, remaining) =
     (let costs = tm_levelCosts tm; k = b_id (tm_block tm) in
      if remaining \<ge> cost_S costs
        then (grades(k \<mapsto> \<lparr>gi_grade = Grade_S, tokenSpent = cost_S costs\<rparr>),
              remaining - cost_S costs)
      else if remaining \<ge> cost_A costs
        then (grades(k \<mapsto> \<lparr>gi_grade = Grade_A, tokenSpent = cost_A costs\<rparr>),
              remaining - cost_A costs)
      else if remaining \<ge> cost_B costs
        then (grades(k \<mapsto> \<lparr>gi_grade = Grade_B, tokenSpent = cost_B costs\<rparr>),
              remaining - cost_B costs)
      else if remaining \<ge> cost_C costs
        then (grades(k \<mapsto> \<lparr>gi_grade = Grade_C, tokenSpent = cost_C costs\<rparr>),
              remaining - cost_C costs)
      else (grades(k \<mapsto> \<lparr>gi_grade = Grade_D, tokenSpent = 0\<rparr>), remaining))"

definition allocateGradesForAgent :: "TaskMeta list \<Rightarrow> rat \<Rightarrow> GradeMap \<times> rat" where
  \<comment> \<open>the result pair is \<^verbatim>\<open>{ grades, remaining }\<close>\<close>
  "allocateGradesForAgent tasks budget =
     fold allocate_step (js_sort task_priority_cmp tasks) (Map.empty, budget)"

definition getAgentAffinity :: "AgentId \<Rightarrow> UserProfile \<Rightarrow> rat" where
  "getAgentAffinity agent profile =
     (let mbti = (case mbtiType profile of None \<Rightarrow> [] | Some s \<Rightarrow> s);
          has = (\<lambda>c. c \<in> set mbti)
      in case agent of
           ENTJ \<Rightarrow> (if has CHR ''J'' then 2 / 5 else 0) + (if has CHR ''T'' then 3 / 10 else 0)
                     + 3 / 10
         | ISFJ \<Rightarrow> (if has CHR ''S'' then 2 / 5 else 0) + (if has CHR ''I'' then 3 / 10 else 0)
                     + 3 / 10
         | INFJ \<Rightarrow> (if has CHR ''F'' then 2 / 5 else 0) + (if has CHR ''E'' then 3 / 10 else 0)
                     + 3 / 10
         | ESTP \<Rightarrow> (if has CHR ''P'' then 1 / 2 else 0) + 3 / 10)"

definition calculateTradeRisk ::
  "AgentId \<Rightarrow> ScheduleBlock \<Rightarrow> TaskGrade \<Rightarrow> TaskGrade \<Rightarrow> UserProfile \<Rightarrow> rat" where
  "calculateTradeRisk agent block fromGrade toGrade profile =
     (gradeRank fromGrade - gradeRank toGrade) * 20
     + (if b_isDeadline block then 100 else 0)
     + getAgentAffinity agent profile * 15
     + min 30 (tokenCost block / 50)"

definition calculateTradeBenefit ::
  "AgentId \<Rightarrow> TaskGrade \<Rightarrow> TaskGrade \<Rightarrow> UserProfile \<Rightarrow> rat" where
  "calculateTradeBenefit agent fromGrade toGrade profile =
     (gradeRank toGrade - gradeRank fromGrade) * 25
     + getAgentAffinity agent profile * 20
     + (if agent = ENTJ \<and> rigidityCoefficient profile > 3 / 5 then 20 else 0)
     + (if agent = ESTP \<and> rigidityCoefficient profile < 2 / 5 then 15 else 0)"

fun first_some :: "('a \<Rightarrow> 'b option) \<Rightarrow> 'a list \<Rightarrow> 'b option" where
  \<comment> \<open>a \<^verbatim>\<open>for\<close> loop that returns from its first successful iteration\<close>
  "first_some f [] = None"
| "first_some f (x # xs) = (case f x of Some y \<Rightarrow> Some y | None \<Rightarrow> first_some f xs)"

definition try_partner_task ::
  "AgentId \<Rightarrow> string \<Rightarrow> TaskGrade \<Rightarrow> TaskGrade \<Rightarrow> rat \<Rightarrow> GradeMap \<Rightarrow> UserProfile
     \<Rightarrow> AgentId \<Rightarrow> TaskMeta \<Rightarrow> TradeProposal option" where
  \<comment> \<open>the body of the inner loop of \<^verbatim>\<open>attemptP2PTrade\<close>; \<open>None\<close> is \<^verbatim>\<open>continue\<close>\<close>
  "try_partner_task requestingAgent targetTaskId currentGrade desiredGrade neededTokens
       currentGrades profile partnerAgent pt =
     (if b_isDeadline (tm_block pt) then None
      else case currentGrades (b_id (tm_block pt)) of
        None \<Rightarrow> None
      | Some ptGrade \<Rightarrow>
          if gradeRank (gi_grade ptGrade) \<le> gradeRank Grade_C then None
          else let downgradeTarget = lowerGrade (gi_grade ptGrade) in
            if downgradeTarget = Grade_D then None
            else let freed = tokenSpent ptGrade - level_cost (tm_levelCosts pt) downgradeTarget in
              if freed < neededTokens * (1 / 2) then None
              else let risk = calculateTradeRisk partnerAgent (tm_block pt) (gi_grade ptGrade)
                                downgradeTarget profile;
                       benefit = calculateTradeBenefit requestingAgent currentGrade desiredGrade
                                   profile
                   in if benefit > risk
                      then Some \<lparr>sourceAgent = requestingAgent, targetAgent = partnerAgent,
                                 offer = \<lparr>offer_taskId = b_id (tm_block pt),
                                          downgradeFrom = gi_grade ptGrade,
                                          downgradeTo = downgradeTarget, tokenFreed = freed\<rparr>,
                                 demand = \<lparr>demand_taskId = targetTaskId,
                                           upgradeFrom = currentGrade, upgradeTo = desiredGrade,
                                           tokenNeeded = neededTokens\<rparr>,
                                 riskScore = risk, benefitScore = benefit, accepted = True\<rparr>
                      else None)"

definition attemptP2PTrade ::
  "AgentId \<Rightarrow> string \<Rightarrow> TaskGrade \<Rightarrow> TaskGrade \<Rightarrow> rat \<Rightarrow> (AgentId \<Rightarrow> rat)
     \<Rightarrow> (AgentId \<Rightarrow> TaskMeta list) \<Rightarrow> GradeMap \<Rightarrow> UserProfile \<Rightarrow> TradeProposal option" where
  "attemptP2PTrade requestingAgent targetTaskId currentGrade desiredGrade neededTokens
       agentRemaining agentTasks currentGrades profile =
     (let candidates =
            js_sort (\<lambda>a b. agentRemaining b - agentRemaining a)
              (filter (\<lambda>a. a \<noteq> requestingAgent \<and> agentRemaining a > 0) ALL_AGENT_IDS)
      in first_some (\<lambda>partnerAgent.
            first_some (try_partner_task requestingAgent targetTaskId currentGrade desiredGrade
                          neededTokens currentGrades profile partnerAgent)
              (agentTasks partnerAgent))
           candidates)"

text \<open>
  The three stages of \<^verbatim>\<open>collapseAllTasks\<close>: the initial allocation (steps 1 to 4), the
  trade pass (step 5) and the assembly of the results (step 6).
\<close>

definition taskMeta_of :: "ScheduleBlock list \<Rightarrow> TaskMeta list" where
  "taskMeta_of blocks =
     map (\<lambda>block. \<lparr>tm_block = block, tm_levelCosts = getTaskLevelCosts (tokenCost block),
                    tm_ownerAgent = b_ownerAgent block\<rparr>) blocks"

definition agentTasks_of :: "TaskMeta list \<Rightarrow> AgentId \<Rightarrow> TaskMeta list" where
  \<comment> \<open>the four buckets filled by \<^verbatim>\<open>push\<close> in block order\<close>
  "agentTasks_of taskMeta agentId = filter (\<lambda>tm. tm_ownerAgent tm = agentId) taskMeta"

definition initial_allocation ::
  "(AgentId \<Rightarrow> rat) \<Rightarrow> (AgentId \<Rightarrow> TaskMeta list) \<Rightarrow> GradeMap \<times> (AgentId \<Rightarrow> rat)" where
  "initial_allocation agentBudgets agentTasks =
     fold (\<lambda>agentId (initialGrades, agentRemaining).
             case allocateGradesForAgent (agentTasks agentId) (agentBudgets agentId) of
               (grades, remaining) \<Rightarrow>
                 (initialGrades ++ grades, agentRemaining(agentId := remaining)))
       ALL_AGENT_IDS (Map.empty, (\<lambda>_. 0))"

type_synonym trade_state = "TradeProposal list \<times> GradeMap \<times> (AgentId \<Rightarrow> rat)"

definition trade_step ::
  "UserProfile \<Rightarrow> (AgentId \<Rightarrow> TaskMeta list) \<Rightarrow> AgentState \<Rightarrow> AgentId \<Rightarrow> TaskMeta
     \<Rightarrow> trade_state \<Rightarrow> trade_state" where
  "trade_step profile agentTasks state agentId tm st =
     (case st of (tradeList, adjustedGrades, agentRemaining) \<Rightarrow>
        case adjustedGrades (b_id (tm_block tm)) of
          None \<Rightarrow> st
        | Some current \<Rightarrow>
            if \<not> (satisfaction state > 60 \<and> gradeRank (gi_grade current) < gradeRank Grade_B)
            then st
            else let upgradeCost = cost_B (tm_levelCosts tm) - tokenSpent current in
              if upgradeCost \<le> 0 then st
              else case attemptP2PTrade agentId (b_id (tm_block tm)) (gi_grade current) Grade_B
                          upgradeCost agentRemaining agentTasks adjustedGrades profile of
                None \<Rightarrow> st
              | Some trade \<Rightarrow>
                  let adj1 = adjustedGrades(demand_taskId (demand trade) \<mapsto>
                               \<lparr>gi_grade = upgradeTo (demand trade),
                                tokenSpent = tokenSpent current + tokenNeeded (demand trade)\<rparr>);
                      prior = (case adj1 (offer_taskId (offer trade)) of
                                  None \<Rightarrow> 0 | Some gi \<Rightarrow> tokenSpent gi);
                      adj2 = adj1(offer_taskId (offer trade) \<mapsto>
                               \<lparr>gi_grade = downgradeTo (offer trade),
                                tokenSpent = Math_round (prior - tokenFreed (offer trade))\<rparr>);
                      src = sourceAgent trade
                  in (tradeList @ [trade], adj2,
                      agentRemaining(src := agentRemaining src + tokenFreed (offer trade)
                                              - tokenNeeded (demand trade))))"

definition trade_pass ::
  "CouncilContext \<Rightarrow> (AgentId \<Rightarrow> TaskMeta list) \<Rightarrow> trade_state \<Rightarrow> trade_state" where
  "trade_pass ctx agentTasks st0 =
     fold (\<lambda>agentId st.
             case find (\<lambda>a. as_id a = agentId) (agentStates ctx) of
               None \<Rightarrow> st
             | Some state \<Rightarrow>
                 fold (trade_step (userProfile ctx) agentTasks state agentId)
                   (agentTasks agentId) st)
       ALL_AGENT_IDS st0"

record CollapseOutput =
  co_results :: "CollapseResult list"
  co_trades :: "TradeProposal list"

definition collapse_result ::
  "GradeMap \<Rightarrow> GradeMap \<Rightarrow> TradeProposal list \<Rightarrow> TaskMeta \<Rightarrow> CollapseResult" where
  "collapse_result initialGrades adjustedGrades tradeList tm =
     (let k = b_id (tm_block tm);
          gradeInfo = (case adjustedGrades k of
                         None \<Rightarrow> \<lparr>gi_grade = Grade_C, tokenSpent = 0\<rparr> | Some gi \<Rightarrow> gi);
          trade = find (\<lambda>t. demand_taskId (demand t) = k \<or> offer_taskId (offer t) = k) tradeList
      in \<lparr>cr_taskId = k,
          cr_taskName = b_taskName (tm_block tm),
          cr_ownerAgent = tm_ownerAgent tm,
          cr_category = Some (b_category (tm_block tm)),
          initialGrade = (case initialGrades k of None \<Rightarrow> Grade_C | Some gi \<Rightarrow> gi_grade gi),
          finalGrade = gi_grade gradeInfo,
          tokenInvested = tokenSpent gradeInfo,
          levelCosts = tm_levelCosts tm,
          tradedWith = (case trade of
                          None \<Rightarrow> None
                        | Some t \<Rightarrow> Some (if sourceAgent t = tm_ownerAgent tm
                                           then targetAgent t else sourceAgent t)),
          cr_isDeadline = b_isDeadline (tm_block tm)\<rparr>)"

definition collapseAllTasks ::
  "CouncilContext \<Rightarrow> ScheduleBlock list \<Rightarrow> rat \<Rightarrow> CollapseOutput" where
  "collapseAllTasks ctx blocks totalBudget =
     (let agentBudgets = calculateAgentBudgets (agentStates ctx) totalBudget;
          taskMeta = taskMeta_of blocks;
          agentTasks = agentTasks_of taskMeta
      in case initial_allocation agentBudgets agentTasks of
           (initialGrades, agentRemaining) \<Rightarrow>
             case trade_pass ctx agentTasks ([], initialGrades, agentRemaining) of
               (tradeList, adjustedGrades, _) \<Rightarrow>
                 \<lparr>co_results = map (collapse_result initialGrades adjustedGrades tradeList) taskMeta,
                  co_trades = tradeList\<rparr>)"

datatype ValidationError = InvalidGrade string | DeadlineGradeD string | NegativeTokens string

definition validateCollapseResults :: "CollapseResult list \<Rightarrow> bool \<times> ValidationError list" where
  \<comment> \<open>the pair is \<^verbatim>\<open>{ valid, errors }\<close>\<close>
  "validateCollapseResults rs =
     (let errors = concat (map (\<lambda>r.
            (if gradeRank (finalGrade r) < 0 then [InvalidGrade (cr_taskName r)] else [])
            @ (if cr_isDeadline r \<and> finalGrade r = Grade_D
               then [DeadlineGradeD (cr_taskName r)] else [])
            @ (if tokenInvested r < 0 then [NegativeTokens (cr_taskName r)] else [])) rs)
      in (errors = [], errors))"

definition collapseFromAgentStates :: "CouncilContext \<Rightarrow> CollapseResult list" where
  \<comment> \<open>The display name of a virtual task is the agent's role name with a fixed suffix;
     the agent id stands for it here.\<close>
  "collapseFromAgentStates ctx =
     map (\<lambda>agent.
        let w = currentWeight agent;
            sat = satisfaction agent;
            composite = (w / 4 * 50) + (sat / 100 * 50);
            grade = (if composite \<ge> 80 then Grade_S
                     else if composite \<ge> 60 then Grade_A
                     else if composite \<ge> 40 then Grade_B
                     else if composite \<ge> 20 then Grade_C
                     else Grade_D);
            invested = Math_round (currentWeight agent * 25);
            baseCost = invested * 2
        in \<lparr>cr_taskId = ''agent_task_'' @ (case as_id agent of
                           ENTJ \<Rightarrow> ''ENTJ'' | ISFJ \<Rightarrow> ''ISFJ'' | INFJ \<Rightarrow> ''INFJ'' | ESTP \<Rightarrow> ''ESTP''),
            cr_taskName = (case as_id agent of
                           ENTJ \<Rightarrow> ''ENTJ'' | ISFJ \<Rightarrow> ''ISFJ'' | INFJ \<Rightarrow> ''INFJ'' | ESTP \<Rightarrow> ''ESTP''),
            cr_ownerAgent = as_id agent,
            cr_category = None,
            initialGrade = grade,
            finalGrade = grade,
            tokenInvested = invested,
            levelCosts = getTaskLevelCosts baseCost,
            tradedWith = None,
            cr_isDeadline = False\<rparr>) (agentStates ctx)"

subsection \<open>The session driver (orchestrator.ts)\<close>

record TokenAllocation =
  efficiency :: rat
  health :: rat
  relationship :: rat
  risk :: rat

definition tokenAllocationToWeights :: "TokenAllocation \<Rightarrow> AgentId \<Rightarrow> rat" where
  "tokenAllocationToWeights alloc =
     (let total = efficiency alloc + health alloc + relationship alloc + risk alloc in
      if total = 0 then (\<lambda>_. 1)
      else (\<lambda>a. case a of
              ENTJ \<Rightarrow> (efficiency alloc / total) * 4
            | ISFJ \<Rightarrow> (health alloc / total) * 4
            | INFJ \<Rightarrow> (relationship alloc / total) * 4
            | ESTP \<Rightarrow> (risk alloc / total) * 4))"

record OrchestratorConfig =
  maxRounds :: nat
  cfg_userProfile :: UserProfile
  tokenAllocation :: TokenAllocation
  cfg_scheduleBlocks :: "ScheduleBlock list option"

text \<open>
  \<^verbatim>\<open>CouncilSession.updateAgentState\<close> merges a partial agent state into the entry of one
  agent. The driver only ever patches satisfaction, resource inventory and status.
\<close>

record AgentPatch =
  p_satisfaction :: "rat option"
  p_resourceInventory :: "ResourceInventory option"
  p_status :: "AgentStatus option"

definition apply_patch :: "AgentPatch \<Rightarrow> AgentState \<Rightarrow> AgentState" where
  "apply_patch p a =
     a\<lparr>satisfaction := (case p_satisfaction p of None \<Rightarrow> satisfaction a | Some s \<Rightarrow> s),
       resourceInventory :=
         (case p_resourceInventory p of None \<Rightarrow> resourceInventory a | Some i \<Rightarrow> i),
       status := (case p_status p of None \<Rightarrow> status a | Some s \<Rightarrow> s)\<rparr>"

definition updateAgentState :: "AgentId \<Rightarrow> AgentPatch \<Rightarrow> AgentState list \<Rightarrow> AgentState list" where
  "updateAgentState i updates states =
     map (\<lambda>a. if as_id a = i then apply_patch updates a else a) states"

text \<open>
  One turn of the negotiation loop asks the external text service for the speaker's
  utterance, parses the answer and processes the intent. Whatever the service answers,
  the turn reaches the agent states only through \<^verbatim>\<open>updateAgentState\<close> (directly, through
  \<^verbatim>\<open>applyTrade\<close>, or after an automatic trade suggestion); a failed call changes nothing
  and only advances the round. A turn oracle maps the round number and the current agent
  states to that outcome: a failed call, or the sequence of updates the turn performs.
\<close>

datatype TurnOutcome = ApiFailure | TurnApplied "(AgentId \<times> AgentPatch) list"

type_synonym turn_oracle = "nat \<Rightarrow> AgentState list \<Rightarrow> TurnOutcome"

datatype SessionStatus = SS_ACTIVE | SS_CONCLUDED | SS_DEADLOCKED

record Session =
  ss_agentStates :: "AgentState list"
  currentRound :: nat
  ss_status :: SessionStatus
  previousRoundStates :: "AgentState list option"

function negotiation_loop :: "turn_oracle \<Rightarrow> nat \<Rightarrow> Session \<Rightarrow> js_error + Session" where
  "negotiation_loop turn maxR st =
     (if ss_status st = SS_ACTIVE \<and> currentRound st \<le> maxR
      then (case turn (currentRound st) (ss_agentStates st) of
              ApiFailure \<Rightarrow>
                negotiation_loop turn maxR (st\<lparr>currentRound := currentRound st + 1\<rparr>)
            | TurnApplied patches \<Rightarrow>
                let states = fold (\<lambda>(i, p). updateAgentState i p) patches (ss_agentStates st) in
                case forceConvergence states (of_nat (currentRound st)) (of_nat maxR) 10
                       (previousRoundStates st) of
                  Inl e \<Rightarrow> Inl e
                | Inr convergence \<Rightarrow>
                    if shouldForce convergence
                    then Inr (st\<lparr>ss_agentStates := states, ss_status := SS_CONCLUDED\<rparr>)
                    else negotiation_loop turn maxR
                           (st\<lparr>ss_agentStates := states,
                               previousRoundStates := Some states,
                               currentRound := currentRound st + 1\<rparr>))
      else Inr st)"
  by pat_completeness auto
termination
  by (relation "measure (\<lambda>(turn, maxR, st). maxR + 1 - currentRound st)") auto

record SessionOutput =
  out_report :: SettlementReport
  out_roundNumber :: nat

definition runCouncilSession ::
  "OrchestratorConfig \<Rightarrow> turn_oracle \<Rightarrow> rng \<Rightarrow> js_error + SessionOutput" where
  \<comment> \<open>The collapse phase reads the agent states only: \<^verbatim>\<open>config.scheduleBlocks\<close> is stored
     in the context and never consulted; the settlement budget is the constant 1000 and
     the trade list is empty. The verdict, the log, the result card and the final agent
     states are derived from the report and the session and are left out of the output.\<close>
  "runCouncilSession config turn r =
     (let weights = tokenAllocationToWeights (tokenAllocation config);
          states0 = map (\<lambda>a. a\<lparr>currentWeight := weights (as_id a)\<rparr>) createAllAgentStates;
          st0 = \<lparr>ss_agentStates = states0, currentRound = 1, ss_status = SS_ACTIVE,
                 previousRoundStates = None\<rparr>
      in case negotiation_loop turn (maxRounds config) st0 of
           Inl e \<Rightarrow> Inl e
         | Inr st \<Rightarrow>
             let context = \<lparr>agentStates = ss_agentStates st,
                            userProfile = cfg_userProfile config,
                            scheduleBlocks = cfg_scheduleBlocks config\<rparr>;
                 results = collapseFromAgentStates context;
                 report = buildSettlementReport
                            \<lparr>in_collapseResults = results, in_trades = [],
                             in_agentStates = ss_agentStates st, in_totalBudget = 1000,
                             in_luckModifier = None\<rparr> r
             in Inr \<lparr>out_report = report, out_roundNumber = currentRound st\<rparr>)"

subsection \<open>Sample inputs\<close>

definition sample_block :: "string \<Rightarrow> AgentId \<Rightarrow> rat \<Rightarrow> bool \<Rightarrow> ScheduleBlock" where
  "sample_block i a c d =
     \<lparr>b_id = i, b_category = WORK_AI, b_taskName = i, tokenCost = c, b_isDeadline = d,
      isLocked = False, b_ownerAgent = a, escrowState = Some PENDING, b_finalGrade = None\<rparr>"

definition sample_agent :: "AgentId \<Rightarrow> rat \<Rightarrow> rat \<Rightarrow> AgentState" where
  \<comment> \<open>a default agent state with the given weight and satisfaction\<close>
  "sample_agent i w s = (createDefaultAgentState i)\<lparr>currentWeight := w, satisfaction := s\<rparr>"

definition sample_context :: "AgentState list \<Rightarrow> rat \<Rightarrow> CouncilContext" where
  \<comment> \<open>no MBTI type on the profile, the given rigidity coefficient\<close>
  "sample_context states rigidity =
     \<lparr>agentStates = states,
      userProfile = \<lparr>mbtiType = None, rigidityCoefficient = rigidity\<rparr>,
      scheduleBlocks = None\<rparr>"

definition sample_config :: "ScheduleBlock list \<Rightarrow> OrchestratorConfig" where
  \<comment> \<open>25 rounds and the default token allocation 30/25/20/25\<close>
  "sample_config blocks =
     \<lparr>maxRounds = 25,
      cfg_userProfile = \<lparr>mbtiType = None, rigidityCoefficient = 1 / 2\<rparr>,
      tokenAllocation = \<lparr>efficiency = 30, health = 25, relationship = 20, risk = 25\<rparr>,
      cfg_scheduleBlocks = Some blocks\<rparr>"

subsection \<open>Bookkeeping for the collapse engine\<close>

definition task_key :: "TaskMeta \<Rightarrow> string" where
  "task_key tm = b_id (tm_block tm)"

definition spent_in :: "GradeMap \<Rightarrow> TaskMeta \<Rightarrow> rat" where
  \<comment> \<open>the tokens a grade map records for a task; a missing entry counts as 0, as in
     step 6 of \<^verbatim>\<open>collapseAllTasks\<close>\<close>
  "spent_in g tm = (case g (task_key tm) of None \<Rightarrow> 0 | Some gi \<Rightarrow> tokenSpent gi)"

definition agent_grades ::
  "(AgentId \<Rightarrow> rat) \<Rightarrow> (AgentId \<Rightarrow> TaskMeta list) \<Rightarrow> AgentId \<Rightarrow> GradeMap" where
  "agent_grades B T a = fst (allocateGradesForAgent (T a) (B a))"

definition total_invested :: "CollapseResult list \<Rightarrow> rat" where
  "total_invested rs = sum_list (map tokenInvested rs)"

definition offers_free_task :: "(AgentId \<Rightarrow> TaskMeta list) \<Rightarrow> TradeProposal \<Rightarrow> bool" where
  \<comment> \<open>the offer side of the trade is a task of some agent's bucket that is not a deadline task\<close>
  "offers_free_task T t =
     (\<exists>a. \<exists>pt\<in>set (T a). offer_taskId (offer t) = b_id (tm_block pt)
                          \<and> \<not> b_isDeadline (tm_block pt))"

definition trade_delta :: "TradeProposal \<Rightarrow> rat" where
  \<comment> \<open>what an accepted trade adds to the tokens booked: the upgrade is booked in full, the
     downgrade gives back what it frees\<close>
  "trade_delta t = tokenNeeded (demand t) - tokenFreed (offer t)"

definition booked :: "TaskMeta list \<Rightarrow> GradeMap \<Rightarrow> rat" where
  "booked tms g = sum_list (map (spent_in g) tms)"

definition ledger :: "TaskMeta list \<Rightarrow> trade_state \<Rightarrow> rat" where
  \<comment> \<open>the tokens booked in the adjusted grades, net of the trades accepted so far\<close>
  "ledger tms st = booked tms (fst (snd st)) - sum_list (map trade_delta (fst st))"

section \<open>Properties\<close>

subsection \<open>Evaluating floors of numerals\<close>

lemma floor_numeral_div: "\<lfloor>numeral a / numeral b :: rat\<rfloor> = numeral a div numeral b"
  using floor_divide_of_int_eq [of "numeral a" "numeral b", where ?'a = rat] by simp

lemma floor_one_div: "\<lfloor>1 / numeral b :: rat\<rfloor> = 1 div numeral b"
  using floor_divide_of_int_eq [of 1 "numeral b", where ?'a = rat] by simp

lemma floor_neg_numeral_div:
  "\<lfloor>- (numeral a / numeral b) :: rat\<rfloor> = - numeral a div numeral b"
  using floor_divide_of_int_eq [of "- numeral a" "numeral b", where ?'a = rat] by simp

lemma floor_neg_one_div: "\<lfloor>- (1 / numeral b) :: rat\<rfloor> = - 1 div numeral b"
  using floor_divide_of_int_eq [of "- 1" "numeral b", where ?'a = rat] by simp

lemmas floor_evals =
  floor_numeral_div floor_one_div floor_neg_numeral_div floor_neg_one_div

subsection \<open>Escrow\<close>

lemma freezeEscrow_keeps_terminal:
  "escrowState (escrow_step b Freeze) =
     (if escrowState b = Some RELEASED \<or> escrowState b = Some BURNED
      then escrowState b else Some FROZEN)"
  by (simp add: freezeEscrow_def)

lemma escrow_step_released:
  "escrowState b = Some RELEASED \<Longrightarrow> escrowState (escrow_step b op) = Some RELEASED"
  by (cases op) (simp_all add: freezeEscrow_def releaseEscrow_def)

lemma escrow_run_released:
  "escrowState b = Some RELEASED \<Longrightarrow> escrowState (escrow_run b ops) = Some RELEASED"
  unfolding escrow_run_def
  by (induction ops arbitrary: b) (simp_all add: escrow_step_released)

text \<open>
  C5. The escrow state machine is meant to be monotonic: a RELEASED block never goes back
  to FROZEN, and a BURNED block never leaves BURNED. \<^verbatim>\<open>freezeEscrow\<close> guards both terminal
  states, but \<^verbatim>\<open>releaseEscrow\<close> writes RELEASED without looking at the current state: a
  BURNED block handed to it comes back RELEASED.
\<close>

theorem C5_release_leaves_burned:
  "escrowState
     (escrow_run
        \<lparr>b_id = ''t1'', b_category = WORK_AI, b_taskName = ''report'', tokenCost = 100,
         b_isDeadline = False, isLocked = False, b_ownerAgent = ENTJ,
         escrowState = Some BURNED, b_finalGrade = None\<rparr>
        [Freeze, Release Grade_B]) = Some RELEASED"
  by (simp add: escrow_run_def freezeEscrow_def releaseEscrow_def)

subsection \<open>Vote tallying\<close>





subsection \<open>The roll\<close>

text \<open>
  C8. Whatever the token investment, grade, luck modifier and random draws: when the
  grade is D, or the token investment is zero or negative, \<^verbatim>\<open>rollEnhanced\<close> returns a
  result of type CRITICAL_FAIL, regardless of the score it computed.
\<close>

theorem C8_rollEnhanced_forced_fail:
  assumes "grade = Grade_D \<or> invested \<le> 0"
  shows "rng_type (fst (rollEnhanced invested grade luckModifier r)) = CRITICAL_FAIL"
  using assms
  by (auto simp add: rollEnhanced_def Let_def split: prod.splits)

text \<open>
  At grade D with an investment of \<open>-10\<close> the score is 0, which lies above half the
  investment: the threshold cascade alone says SUCCESS, and the roll is still a
  CRITICAL_FAIL.
\<close>

theorem C8_rollEnhanced_forced_fail_witness:
  "(Grade_D = Grade_D \<or> (- 10 :: rat) \<le> 0)
   \<and> fst (roll_outcome (- 10) (roll_score (- 10) Grade_D (roll_luck (1 / 2) 0))) = SUCCESS
   \<and> rng_type (fst (rollEnhanced (- 10) Grade_D 0 (\<lambda>_. 1 / 2))) = CRITICAL_FAIL"
  using C8_rollEnhanced_forced_fail [of Grade_D "- 10" 0 "\<lambda>_. 1 / 2"]
  by (simp add: roll_outcome_def roll_score_def roll_luck_def Math_round_def floor_evals)



subsection \<open>Settlement\<close>

lemma fold_add_sum_list:
  "fold (\<lambda>x s. s + f x) xs (a :: rat) = a + sum_list (map f xs)"
  by (induction xs arbitrary: a) (simp_all add: algebra_simps)

text \<open>
  C6. For every list of collapse results and every total budget, the token settlement of
  \<^verbatim>\<open>buildSettlementReport\<close> satisfies: \<open>totalSpent\<close> is the sum of \<open>tokenInvested\<close> over
  the collapse results; \<open>totalRemaining\<close> is \<open>max(0, totalBudget - totalSpent)\<close>;
  \<open>carryOver\<close> is \<open>round(totalRemaining * 0.5)\<close>; \<open>meltdownOccurred\<close> holds exactly when
  \<open>totalSpent > totalBudget * 1.2\<close>; and whenever \<open>meltdownOccurred\<close> holds the overall
  grade is D, whatever the event cards are.
\<close>

theorem C6_settlement_accounting:
  fixes input :: SettlementInput and r :: rng
  defines "rep \<equiv> buildSettlementReport input r"
  defines "ts \<equiv> tokenSettlement rep"
  shows "totalSpent ts = sum_list (map tokenInvested (in_collapseResults input))
       \<and> totalRemaining ts = max 0 (in_totalBudget input - totalSpent ts)
       \<and> carryOver ts = Math_round (totalRemaining ts * (1 / 2))
       \<and> meltdownOccurred ts = (totalSpent ts > in_totalBudget input * (6 / 5))
       \<and> (meltdownOccurred ts \<longrightarrow> overallGrade rep = Grade_D)"
  unfolding rep_def ts_def
  by (simp add: buildSettlementReport_def Let_def fold_add_sum_list calculateOverallGrade_def)

text \<open>
  A budget of 100 against a single S-grade task that invested 1000: the roll is a
  critical success, yet the session melts down and the overall grade is D.
\<close>

theorem C6_settlement_accounting_witness:
  "meltdownOccurred (tokenSettlement (buildSettlementReport
      \<lparr>in_collapseResults =
         [\<lparr>cr_taskId = ''t1'', cr_taskName = ''report'', cr_ownerAgent = ENTJ,
           cr_category = None, initialGrade = Grade_S, finalGrade = Grade_S,
           tokenInvested = 1000, levelCosts = getTaskLevelCosts 500, tradedWith = None,
           cr_isDeadline = False\<rparr>],
       in_trades = [], in_agentStates = [], in_totalBudget = 100, in_luckModifier = None\<rparr>
      (\<lambda>_. 9 / 10)))
   \<and> overallGrade (buildSettlementReport
      \<lparr>in_collapseResults =
         [\<lparr>cr_taskId = ''t1'', cr_taskName = ''report'', cr_ownerAgent = ENTJ,
           cr_category = None, initialGrade = Grade_S, finalGrade = Grade_S,
           tokenInvested = 1000, levelCosts = getTaskLevelCosts 500, tradedWith = None,
           cr_isDeadline = False\<rparr>],
       in_trades = [], in_agentStates = [], in_totalBudget = 100, in_luckModifier = None\<rparr>
      (\<lambda>_. 9 / 10)) = Grade_D"
proof -
  let ?input = "\<lparr>in_collapseResults =
         [\<lparr>cr_taskId = ''t1'', cr_taskName = ''report'', cr_ownerAgent = ENTJ,
           cr_category = None, initialGrade = Grade_S, finalGrade = Grade_S,
           tokenInvested = 1000, levelCosts = getTaskLevelCosts 500, tradedWith = None,
           cr_isDeadline = False\<rparr>],
       in_trades = [], in_agentStates = [], in_totalBudget = 100, in_luckModifier = None\<rparr>"
  have spent: "totalSpent (tokenSettlement (buildSettlementReport ?input (\<lambda>_. 9 / 10))) = 1000"
    using C6_settlement_accounting [of ?input "\<lambda>_. 9 / 10"] by simp
  have melt: "meltdownOccurred (tokenSettlement (buildSettlementReport ?input (\<lambda>_. 9 / 10)))"
    using C6_settlement_accounting [of ?input "\<lambda>_. 9 / 10"] by (simp add: spent)
  then show ?thesis
    using C6_settlement_accounting [of ?input "\<lambda>_. 9 / 10"] by simp
qed

subsection \<open>Forced convergence\<close>

lemma length_insert_by: "length (insert_by cmp x xs) = Suc (length xs)"
  by (induction xs) simp_all

lemma length_js_sort: "length (js_sort cmp xs) = length xs"
  unfolding js_sort_def by (induction xs) (simp_all add: length_insert_by)

lemma js_sort_nonempty: "xs \<noteq> [] \<Longrightarrow> js_sort cmp xs \<noteq> []"
  using length_js_sort [of cmp xs] by (cases "js_sort cmp xs") auto

text \<open>
  C4, as the specification states it: with \<open>minRounds = 10\<close>, \<^verbatim>\<open>forceConvergence\<close>
  returns \<open>shouldForce = false\<close> whenever \<open>round < 10\<close> and \<open>shouldForce = true\<close> whenever
  \<open>round \<ge> maxRounds\<close>. The second half fails when the configured maximum lies below the
  minimum: the minimum-round guard is tested first, so at round 7 with \<open>maxRounds = 5\<close>
  nothing is forced.
\<close>

theorem C4_forceConvergence_counterexample:
  "(5 :: rat) \<le> 7
   \<and> forceConvergence createAllAgentStates 7 5 10 None
       = Inr \<lparr>shouldForce = False, convergenceAction = NoAction\<rparr>"
  by (simp add: forceConvergence_def)

text \<open>
  C4, amended: with \<open>minRounds = 10\<close>, for every list of agent states and every
  previous-round snapshot, \<^verbatim>\<open>forceConvergence\<close> returns \<open>shouldForce = false\<close> whenever
  \<open>round < 10\<close>; and for every non-empty list of agent states it returns
  \<open>shouldForce = true\<close> whenever \<open>round \<ge> maxRounds\<close> and \<open>round \<ge> 10\<close>.
\<close>

theorem C4_forceConvergence_amended:
  "(rnd < 10 \<longrightarrow>
      returns_shouldForce (forceConvergence states rnd maxR 10 prev) False)
   \<and> (states \<noteq> [] \<and> maxR \<le> rnd \<and> 10 \<le> rnd \<longrightarrow>
      returns_shouldForce (forceConvergence states rnd maxR 10 prev) True)"
proof (intro conjI impI)
  assume "rnd < 10"
  then show "returns_shouldForce (forceConvergence states rnd maxR 10 prev) False"
    by (simp add: forceConvergence_def returns_shouldForce_def)
next
  assume a: "states \<noteq> [] \<and> maxR \<le> rnd \<and> 10 \<le> rnd"
  then obtain d ds where "js_sort dominance_cmp states = d # ds"
    using js_sort_nonempty [of states dominance_cmp] by (cases "js_sort dominance_cmp states") auto
  with a show "returns_shouldForce (forceConvergence states rnd maxR 10 prev) True"
    by (simp add: forceConvergence_def returns_shouldForce_def)
qed

theorem C4_forceConvergence_amended_witness:
  "returns_shouldForce (forceConvergence createAllAgentStates 3 25 10 None) False
   \<and> returns_shouldForce (forceConvergence createAllAgentStates 25 25 10 None) True"
proof -
  have ne: "createAllAgentStates \<noteq> []"
    by (simp add: createAllAgentStates_def ALL_AGENT_IDS_def)
  show ?thesis
    using C4_forceConvergence_amended [of 3 createAllAgentStates 25 None]
      C4_forceConvergence_amended [of 25 createAllAgentStates 25 None] ne
    by simp
qed

subsection \<open>Speaker selection\<close>

lemma selectSpeaker_not_base:
  assumes a: "[ENTJ, ISFJ, INFJ, ESTP] ! (tick mod 4) \<in> set (recentSpeakers logs)"
  shows "speaker (selectSpeakerForTick tick states logs)
           \<noteq> [ENTJ, ISFJ, INFJ, ESTP] ! (tick mod 4)"
proof -
  have "tick mod 4 < 4" by simp
  then have c: "tick mod 4 = 0 \<or> tick mod 4 = 1 \<or> tick mod 4 = 2 \<or> tick mod 4 = 3"
    by linarith
  show ?thesis
    using a c
    by (elim disjE)
      (auto simp add: selectSpeakerForTick_def Let_def find_Some_iff split: option.splits)
qed

text \<open>
  C10. The selected speaker is meant never to be the author of either of the last two log
  entries. \<^verbatim>\<open>selectSpeakerForTick\<close> steps from a recent base agent to the next one in
  rotation without looking at whether that one spoke too: at tick 4, after ENTJ and then
  ISFJ have spoken, the base agent ENTJ is skipped and ISFJ, the author of the last
  entry, is selected again.
\<close>

theorem C10_recent_speaker_selected:
  "speaker (selectSpeakerForTick 4 createAllAgentStates
      [\<lparr>log_agentId = Some ENTJ, log_type = LT_SPEECH\<rparr>,
       \<lparr>log_agentId = Some ISFJ, log_type = LT_SPEECH\<rparr>]) = ISFJ
   \<and> recentSpeakers
      [\<lparr>log_agentId = Some ENTJ, log_type = LT_SPEECH\<rparr>,
       \<lparr>log_agentId = Some ISFJ, log_type = LT_SPEECH\<rparr>] = [ENTJ, ISFJ]"
  by (simp add: selectSpeakerForTick_def recentSpeakers_def slice_last_def
      List.map_filter_def Let_def)

subsection \<open>The collapse engine\<close>

lemma sum_insert_by:
  "sum_list (map f (insert_by cmp x xs)) = (f x :: rat) + sum_list (map f xs)"
  by (induction xs) simp_all

lemma sum_js_sort: "sum_list (map f (js_sort cmp xs)) = (sum_list (map f xs) :: rat)"
  unfolding js_sort_def by (induction xs) (simp_all add: sum_insert_by)

lemma set_insert_by: "set (insert_by cmp x xs) = insert x (set xs)"
  by (induction xs) auto

lemma set_js_sort: "set (js_sort cmp xs) = set xs"
  unfolding js_sort_def by (induction xs) (simp_all add: set_insert_by)

lemma distinct_insert_by:
  "distinct (map k (insert_by cmp x xs)) = (k x \<notin> k ` set xs \<and> distinct (map k xs))"
  by (induction xs) (auto simp add: set_insert_by)

lemma distinct_js_sort: "distinct (map k (js_sort cmp xs)) = distinct (map k xs)"
  unfolding js_sort_def
  by (induction xs) (simp_all add: distinct_insert_by set_js_sort [unfolded js_sort_def])

declare allocate_step.simps [simp del]

lemma allocate_step_other:
  "k \<noteq> task_key tm \<Longrightarrow> fst (allocate_step tm (g, r)) k = g k"
  by (simp add: allocate_step.simps task_key_def Let_def)

lemma allocate_step_spent:
  "spent_in (fst (allocate_step tm (g, r))) tm = r - snd (allocate_step tm (g, r))"
  by (simp add: allocate_step.simps task_key_def spent_in_def Let_def)

lemma allocate_step_remaining:
  "min 0 r \<le> snd (allocate_step tm (g, r))"
  by (auto simp add: allocate_step.simps Let_def min_def)

lemma fold_allocate_other:
  "k \<notin> task_key ` set ts \<Longrightarrow> fst (fold allocate_step ts (g, r)) k = g k"
proof (induction ts arbitrary: g r)
  case Nil
  then show ?case by simp
next
  case (Cons tm ts)
  obtain g1 r1 where s: "allocate_step tm (g, r) = (g1, r1)"
    by (cases "allocate_step tm (g, r)")
  have "g1 k = g k"
    using allocate_step_other [of k tm g r] Cons.prems by (simp add: s)
  with Cons show ?case by (simp add: s)
qed

lemma spent_in_cong: "g (task_key tm) = g' (task_key tm) \<Longrightarrow> spent_in g tm = spent_in g' tm"
  by (simp add: spent_in_def)

lemma fold_allocate_spent:
  "distinct (map task_key ts) \<Longrightarrow>
   sum_list (map (spent_in (fst (fold allocate_step ts (g, r)))) ts)
     = r - snd (fold allocate_step ts (g, r))"
proof (induction ts arbitrary: g r)
  case Nil
  then show ?case by simp
next
  case (Cons tm ts)
  obtain g1 r1 where s: "allocate_step tm (g, r) = (g1, r1)"
    by (cases "allocate_step tm (g, r)")
  let ?G = "fst (fold allocate_step ts (g1, r1))"
  have "task_key tm \<notin> task_key ` set ts"
    using Cons.prems by auto
  then have "?G (task_key tm) = g1 (task_key tm)"
    by (rule fold_allocate_other)
  then have "spent_in ?G tm = spent_in g1 tm"
    by (rule spent_in_cong)
  also have "\<dots> = r - r1"
    using allocate_step_spent [of tm g r] by (simp add: s)
  finally have hd: "spent_in ?G tm = r - r1" .
  have tl: "sum_list (map (spent_in ?G) ts) = r1 - snd (fold allocate_step ts (g1, r1))"
    using Cons.IH [of g1 r1] Cons.prems by simp
  show ?case
    using hd tl by (simp add: s)
qed

lemma fold_allocate_remaining:
  "min 0 r \<le> snd (fold allocate_step ts (g, r))"
proof (induction ts arbitrary: g r)
  case Nil
  then show ?case by simp
next
  case (Cons tm ts)
  obtain g1 r1 where s: "allocate_step tm (g, r) = (g1, r1)"
    by (cases "allocate_step tm (g, r)")
  have "min 0 r \<le> r1"
    using allocate_step_remaining [of r tm g] by (simp add: s)
  moreover have "min 0 r1 \<le> snd (fold allocate_step ts (g1, r1))"
    by (rule Cons.IH)
  ultimately show ?case by (simp add: s)
qed

lemma allocate_agent_spent:
  assumes "distinct (map task_key tasks)"
  shows "sum_list (map (spent_in (fst (allocateGradesForAgent tasks budget))) tasks)
           \<le> max 0 budget"
proof -
  let ?ts = "js_sort task_priority_cmp tasks"
  let ?res = "fold allocate_step ?ts (Map.empty, budget)"
  have d: "distinct (map task_key ?ts)"
    using assms by (simp add: distinct_js_sort)
  have "sum_list (map (spent_in (fst ?res)) tasks) = sum_list (map (spent_in (fst ?res)) ?ts)"
    by (simp add: sum_js_sort)
  also have "\<dots> = budget - snd ?res"
    using d by (rule fold_allocate_spent)
  also have "\<dots> \<le> max 0 budget"
    using fold_allocate_remaining [of budget ?ts Map.empty] by linarith
  finally show ?thesis by (simp add: allocateGradesForAgent_def)
qed

lemma allocate_agent_other:
  "k \<notin> task_key ` set tasks \<Longrightarrow> fst (allocateGradesForAgent tasks budget) k = None"
  using fold_allocate_other [of k "js_sort task_priority_cmp tasks" Map.empty budget]
  by (simp add: allocateGradesForAgent_def set_js_sort)

lemma initial_allocation_grades:
  "fst (initial_allocation B T)
     = Map.empty ++ agent_grades B T ENTJ ++ agent_grades B T ISFJ
         ++ agent_grades B T INFJ ++ agent_grades B T ESTP"
  by (simp add: initial_allocation_def ALL_AGENT_IDS_def agent_grades_def split: prod.splits)

lemma agent_grades_other:
  assumes d: "distinct (map task_key tms)" and m: "tm \<in> set tms" and a: "a \<noteq> tm_ownerAgent tm"
  shows "agent_grades B (agentTasks_of tms) a (task_key tm) = None"
proof -
  have "task_key tm \<notin> task_key ` set (agentTasks_of tms a)"
  proof
    assume "task_key tm \<in> task_key ` set (agentTasks_of tms a)"
    then obtain y where y: "y \<in> set tms" "tm_ownerAgent y = a" "task_key y = task_key tm"
      by (auto simp add: agentTasks_of_def)
    with d m have "y = tm"
      by (meson distinct_map inj_onD)
    with y a show False by simp
  qed
  then show ?thesis
    unfolding agent_grades_def by (rule allocate_agent_other)
qed

lemma initial_allocation_lookup:
  assumes d: "distinct (map task_key tms)" and m: "tm \<in> set tms"
  shows "fst (initial_allocation B (agentTasks_of tms)) (task_key tm)
           = agent_grades B (agentTasks_of tms) (tm_ownerAgent tm) (task_key tm)"
proof -
  note o = agent_grades_other [OF d m, of _ B]
  show ?thesis
    by (cases "tm_ownerAgent tm")
      (simp_all add: initial_allocation_grades map_add_def o split: option.splits)
qed

lemma sum_by_owner:
  "sum_list (map (\<lambda>tm. F (tm_ownerAgent tm) tm) tms)
     = (\<Sum>a\<leftarrow>ALL_AGENT_IDS. sum_list (map (F a) (agentTasks_of tms a)) :: rat)"
proof (induction tms)
  case Nil
  then show ?case by (simp add: agentTasks_of_def ALL_AGENT_IDS_def)
next
  case (Cons tm tms)
  then show ?case
    by (cases "tm_ownerAgent tm") (simp_all add: agentTasks_of_def ALL_AGENT_IDS_def)
qed

lemma initial_allocation_spent:
  assumes d: "distinct (map task_key tms)"
  shows "sum_list (map (spent_in (fst (initial_allocation B (agentTasks_of tms)))) tms)
           \<le> (\<Sum>a\<leftarrow>ALL_AGENT_IDS. max 0 (B a))"
proof -
  let ?T = "agentTasks_of tms"
  have "sum_list (map (spent_in (fst (initial_allocation B ?T))) tms)
          = sum_list (map (\<lambda>tm. spent_in (agent_grades B ?T (tm_ownerAgent tm)) tm) tms)"
    by (rule arg_cong [where f = sum_list], rule map_cong [OF refl],
        rule spent_in_cong, rule initial_allocation_lookup [OF d])
  also have "\<dots> = (\<Sum>a\<leftarrow>ALL_AGENT_IDS. sum_list (map (spent_in (agent_grades B ?T a)) (?T a)))"
    by (rule sum_by_owner)
  also have "\<dots> \<le> (\<Sum>a\<leftarrow>ALL_AGENT_IDS. max 0 (B a))"
  proof (rule sum_list_mono)
    fix a
    have "distinct (map task_key (?T a))"
      using d by (simp add: agentTasks_of_def distinct_map_filter)
    then show "sum_list (map (spent_in (agent_grades B ?T a)) (?T a)) \<le> max 0 (B a)"
      unfolding agent_grades_def by (rule allocate_agent_spent)
  qed
  finally show ?thesis .
qed

lemma tokenInvested_collapse_result:
  "tokenInvested (collapse_result ig ag trs tm) = spent_in ag tm"
  by (simp add: collapse_result_def spent_in_def task_key_def Let_def split: option.splits)

lemma first_some_Some:
  "first_some f xs = Some y \<Longrightarrow> \<exists>x\<in>set xs. f x = Some y"
  by (induction xs) (auto split: option.splits)

lemma try_partner_task_offer:
  "try_partner_task ra tid cg dg need grades profile pa pt = Some t \<Longrightarrow>
   offer_taskId (offer t) = b_id (tm_block pt) \<and> \<not> b_isDeadline (tm_block pt)"
  by (auto simp add: try_partner_task_def Let_def split: if_splits option.splits)

lemma attemptP2PTrade_offer:
  assumes "attemptP2PTrade ra tid cg dg need rem T grades profile = Some t"
  shows "offers_free_task T t"
proof -
  from assms obtain pa where
    "first_some (try_partner_task ra tid cg dg need grades profile pa) (T pa) = Some t"
    unfolding attemptP2PTrade_def Let_def by (blast dest: first_some_Some)
  then obtain pt where "pt \<in> set (T pa)"
    and "try_partner_task ra tid cg dg need grades profile pa pt = Some t"
    by (blast dest: first_some_Some)
  then show ?thesis
    unfolding offers_free_task_def using try_partner_task_offer by blast
qed

lemma trade_step_offers:
  assumes "\<forall>t\<in>set (fst st). offers_free_task T t"
  shows "\<forall>t\<in>set (fst (trade_step p T s a tm st)). offers_free_task T t"
  using assms
  by (cases st)
    (auto simp add: trade_step_def Let_def split: option.splits dest: attemptP2PTrade_offer)

lemma fold_trade_step_offers:
  "\<forall>t\<in>set (fst st). offers_free_task T t \<Longrightarrow>
   \<forall>t\<in>set (fst (fold (trade_step p T s a) tms st)). offers_free_task T t"
proof (induction tms arbitrary: st)
  case Nil
  then show ?case by simp
next
  case (Cons tm tms)
  show ?case
    using Cons.IH [OF trade_step_offers [OF Cons.prems]] by simp
qed

lemma trade_pass_offers:
  "\<forall>t\<in>set (fst (trade_pass ctx T ([], g, r))). offers_free_task T t"
proof -
  have "\<forall>t\<in>set (fst st). offers_free_task T t \<Longrightarrow>
        \<forall>t\<in>set (fst (fold (\<lambda>agentId st.
             case find (\<lambda>a. as_id a = agentId) (agentStates ctx) of
               None \<Rightarrow> st
             | Some state \<Rightarrow>
                 fold (trade_step (userProfile ctx) T state agentId) (T agentId) st) as st)).
           offers_free_task T t" for as st
  proof (induction as arbitrary: st)
    case Nil
    then show ?case by simp
  next
    case (Cons a as)
    show ?case
    proof (cases "find (\<lambda>x. as_id x = a) (agentStates ctx)")
      case None
      then show ?thesis using Cons.IH [OF Cons.prems] by simp
    next
      case (Some s)
      then show ?thesis
        using Cons.IH [OF fold_trade_step_offers [OF Cons.prems]] by simp
    qed
  qed
  from this [of "([], g, r)" ALL_AGENT_IDS] show ?thesis
    by (simp add: trade_pass_def)
qed

lemma collapse_offer_not_deadline:
  assumes "t \<in> set (co_trades (collapseAllTasks ctx blocks totalBudget))"
  shows "\<exists>b\<in>set blocks. b_id b = offer_taskId (offer t) \<and> \<not> b_isDeadline b"
proof -
  let ?T = "agentTasks_of (taskMeta_of blocks)"
  obtain ig ar where ia:
    "initial_allocation (calculateAgentBudgets (agentStates ctx) totalBudget) ?T = (ig, ar)"
    by (cases "initial_allocation (calculateAgentBudgets (agentStates ctx) totalBudget) ?T")
  obtain trs ag ar' where tp: "trade_pass ctx ?T ([], ig, ar) = (trs, ag, ar')"
    by (cases "trade_pass ctx ?T ([], ig, ar)")
  have "t \<in> set trs"
    using assms by (simp add: collapseAllTasks_def Let_def ia tp)
  then have "offers_free_task ?T t"
    using trade_pass_offers [of ctx ?T ig ar] by (simp add: tp)
  then obtain a pt where "pt \<in> set (?T a)"
    and o: "offer_taskId (offer t) = b_id (tm_block pt)" "\<not> b_isDeadline (tm_block pt)"
    unfolding offers_free_task_def by blast
  then have "tm_block pt \<in> set blocks"
    by (auto simp add: agentTasks_of_def taskMeta_of_def)
  with o show ?thesis by auto
qed

lemma Math_round_of_int: "Math_round (of_int n) = of_int n"
proof -
  have "\<lfloor>rat_of_int n + 1 / 2\<rfloor> = n + \<lfloor>1 / 2 :: rat\<rfloor>"
    by (rule floor_add_int [symmetric, of "1 / 2" n, simplified add.commute]) 
  then show ?thesis by (simp add: Math_round_def floor_evals)
qed

lemma Math_round_idem: "Math_round (Math_round x) = Math_round x"
  using Math_round_of_int [of "\<lfloor>x + 1 / 2\<rfloor>"] by (simp add: Math_round_def)

lemma level_cost_integral:
  "g \<noteq> Grade_D \<Longrightarrow>
   Math_round (level_cost (getTaskLevelCosts c) g) = level_cost (getTaskLevelCosts c) g"
  by (cases g) (simp_all add: getTaskLevelCosts_def Math_round_idem)

lemma booked_Cons: "booked (x # xs) g = spent_in g x + booked xs g"
  by (simp add: booked_def)

lemma spent_in_update_same: "spent_in (g(task_key tm \<mapsto> gi)) tm = tokenSpent gi"
  by (simp add: spent_in_def)

lemma spent_in_update_other: "task_key x \<noteq> k \<Longrightarrow> spent_in (g(k \<mapsto> gi)) x = spent_in g x"
  by (simp add: spent_in_def)

lemma booked_update_other:
  "k \<notin> task_key ` set tms \<Longrightarrow> booked tms (g(k \<mapsto> gi)) = booked tms g"
proof (induction tms)
  case Nil
  then show ?case by (simp add: booked_def)
next
  case (Cons x xs)
  then have a: "task_key x \<noteq> k" and b: "k \<notin> task_key ` set xs" by auto
  have c: "booked xs (g(k \<mapsto> gi)) = booked xs g"
    using Cons.IH b by blast
  have e: "spent_in (g(k \<mapsto> gi)) x = spent_in g x"
    using a by (rule spent_in_update_other)
  show ?case
    by (subst booked_Cons, subst booked_Cons) (simp only: c e)
qed

lemma booked_update:
  "distinct (map task_key tms) \<Longrightarrow> tm \<in> set tms \<Longrightarrow>
   booked tms (g(task_key tm \<mapsto> gi)) = booked tms g - spent_in g tm + tokenSpent gi"
proof (induction tms)
  case Nil
  then show ?case by simp
next
  case (Cons x xs)
  let ?g' = "g(task_key tm \<mapsto> gi)"
  have split: "booked (x # xs) ?g' = spent_in ?g' x + booked xs ?g'"
    "booked (x # xs) g = spent_in g x + booked xs g"
    by (rule booked_Cons)+
  show ?case
  proof (cases "tm = x")
    case True
    then have "task_key tm \<notin> task_key ` set xs"
      using Cons.prems by auto
    then have c: "booked xs ?g' = booked xs g"
      by (rule booked_update_other)
    have e: "spent_in ?g' x = tokenSpent gi"
      unfolding True [symmetric] by (rule spent_in_update_same)
    show ?thesis
      unfolding split c e using True by simp
  next
    case False
    then have m: "tm \<in> set xs" using Cons.prems by simp
    then have "task_key x \<noteq> task_key tm" using Cons.prems by auto
    then have e: "spent_in ?g' x = spent_in g x"
      by (rule spent_in_update_other)
    have dx: "distinct (map task_key xs)"
      using Cons.prems by simp
    have c: "booked xs ?g' = booked xs g - spent_in g tm + tokenSpent gi"
      by (rule Cons.IH [OF dx m])
    show ?thesis
      unfolding split c e by simp
  qed
qed

lemma try_partner_task_spec:
  assumes "try_partner_task ra tid cg dg need g profile pa pt = Some t"
  shows "\<exists>pg. g (task_key pt) = Some pg
           \<and> offer_taskId (offer t) = task_key pt
           \<and> downgradeTo (offer t) \<noteq> Grade_D
           \<and> tokenFreed (offer t)
               = tokenSpent pg - level_cost (tm_levelCosts pt) (downgradeTo (offer t))
           \<and> demand_taskId (demand t) = tid
           \<and> tokenNeeded (demand t) = need
           \<and> targetAgent t = pa"
  using assms
  by (auto simp add: try_partner_task_def task_key_def Let_def split: if_splits option.splits)

lemma attemptP2PTrade_spec:
  assumes "attemptP2PTrade ra tid cg dg need rem T g profile = Some t"
  shows "\<exists>pa pt pg. pa \<noteq> ra \<and> pt \<in> set (T pa) \<and> g (task_key pt) = Some pg
           \<and> offer_taskId (offer t) = task_key pt
           \<and> downgradeTo (offer t) \<noteq> Grade_D
           \<and> tokenFreed (offer t)
               = tokenSpent pg - level_cost (tm_levelCosts pt) (downgradeTo (offer t))
           \<and> demand_taskId (demand t) = tid
           \<and> tokenNeeded (demand t) = need"
proof -
  let ?cands = "js_sort (\<lambda>a b. rem b - rem a)
                  (filter (\<lambda>a. a \<noteq> ra \<and> rem a > 0) ALL_AGENT_IDS)"
  from assms obtain pa where pa: "pa \<in> set ?cands"
    and f: "first_some (try_partner_task ra tid cg dg need g profile pa) (T pa) = Some t"
    unfolding attemptP2PTrade_def Let_def by (blast dest: first_some_Some)
  have ne: "pa \<noteq> ra"
    using pa by (simp add: set_js_sort)
  from f obtain pt where pt: "pt \<in> set (T pa)"
    and "try_partner_task ra tid cg dg need g profile pa pt = Some t"
    by (blast dest: first_some_Some)
  then show ?thesis
    using try_partner_task_spec ne pt by blast
qed

lemma trade_step_ledger:
  assumes d: "distinct (map task_key tms)"
    and i: "\<forall>x\<in>set tms. \<exists>c. tm_levelCosts x = getTaskLevelCosts c"
    and m: "tm \<in> set (agentTasks_of tms a)"
  shows "ledger tms (trade_step p (agentTasks_of tms) s a tm st) = ledger tms st"
proof -
  obtain trs g rem where st: "st = (trs, g, rem)" by (cases st)
  let ?T = "agentTasks_of tms"
  have tm: "tm \<in> set tms" "tm_ownerAgent tm = a"
    using m by (simp_all add: agentTasks_of_def)
  show ?thesis
  proof (cases "g (task_key tm)")
    case None
    then show ?thesis by (simp add: trade_step_def st task_key_def)
  next
    case (Some current)
    let ?need = "cost_B (tm_levelCosts tm) - tokenSpent current"
    show ?thesis
    proof (cases "satisfaction s > 60 \<and> gradeRank (gi_grade current) < gradeRank Grade_B
                    \<and> \<not> ?need \<le> 0")
      case False
      then show ?thesis
        using Some by (auto simp add: trade_step_def st task_key_def Let_def)
    next
      case wants: True
      show ?thesis
      proof (cases "attemptP2PTrade a (task_key tm) (gi_grade current) Grade_B ?need rem ?T g p")
        case None
        then show ?thesis
          using Some wants by (auto simp add: trade_step_def st task_key_def Let_def)
      next
        case (Some t)
        from attemptP2PTrade_spec [OF Some] obtain pa pt pg where
          pa: "pa \<noteq> a" and pt: "pt \<in> set (?T pa)" and pg: "g (task_key pt) = Some pg"
          and o: "offer_taskId (offer t) = task_key pt" "downgradeTo (offer t) \<noteq> Grade_D"
          and fr: "tokenFreed (offer t)
                     = tokenSpent pg - level_cost (tm_levelCosts pt) (downgradeTo (offer t))"
          and dm: "demand_taskId (demand t) = task_key tm" "tokenNeeded (demand t) = ?need"
          by blast
        have pt': "pt \<in> set tms" "tm_ownerAgent pt = pa"
          using pt by (simp_all add: agentTasks_of_def)
        have "pt \<noteq> tm" using pt' tm pa by auto
        then have kne: "task_key pt \<noteq> task_key tm"
          using d pt' tm by (meson distinct_map inj_onD)
        obtain c where c: "tm_levelCosts pt = getTaskLevelCosts c"
          using i pt' by blast
        let ?adj1 = "g(task_key tm \<mapsto> \<lparr>gi_grade = upgradeTo (demand t),
                                       tokenSpent = tokenSpent current + ?need\<rparr>)"
        let ?new = "Math_round (tokenSpent pg - tokenFreed (offer t))"
        let ?adj2 = "?adj1(task_key pt \<mapsto> \<lparr>gi_grade = downgradeTo (offer t), tokenSpent = ?new\<rparr>)"
        have new: "?new = level_cost (tm_levelCosts pt) (downgradeTo (offer t))"
          using level_cost_integral [OF o(2), of c] by (simp add: fr c)
        have step: "trade_step p ?T s a tm (trs, g, rem) = (trs @ [t], ?adj2,
                      rem(sourceAgent t := rem (sourceAgent t) + tokenFreed (offer t)
                                             - tokenNeeded (demand t)))"
          using \<open>g (task_key tm) = Some current\<close> wants Some kne pg
          by (simp add: trade_step_def Let_def o dm task_key_def [symmetric])
        have b1: "booked tms ?adj1 = booked tms g - spent_in g tm + (tokenSpent current + ?need)"
          using booked_update [OF d tm(1)] by simp
        have sp: "spent_in ?adj1 pt = tokenSpent pg"
          using kne pg by (simp add: spent_in_def)
        have b2: "booked tms ?adj2 = booked tms ?adj1 - spent_in ?adj1 pt + ?new"
          using booked_update [OF d pt'(1)] by simp
        have cur: "spent_in g tm = tokenSpent current"
          using \<open>g (task_key tm) = Some current\<close> by (simp add: spent_in_def)
        have "booked tms ?adj2 = booked tms g + trade_delta t"
          using b1 b2 sp cur new fr dm by (simp add: trade_delta_def)
        then show ?thesis
          by (simp add: ledger_def step st)
      qed
    qed
  qed
qed

lemma fold_trade_step_ledger:
  assumes d: "distinct (map task_key tms)"
    and i: "\<forall>x\<in>set tms. \<exists>c. tm_levelCosts x = getTaskLevelCosts c"
  shows "set xs \<subseteq> set (agentTasks_of tms a) \<Longrightarrow>
         ledger tms (fold (trade_step p (agentTasks_of tms) s a) xs st) = ledger tms st"
proof (induction xs arbitrary: st)
  case Nil
  then show ?case by simp
next
  case (Cons x xs)
  have x: "x \<in> set (agentTasks_of tms a)" and xs: "set xs \<subseteq> set (agentTasks_of tms a)"
    using Cons.prems by simp_all
  have "ledger tms (fold (trade_step p (agentTasks_of tms) s a) xs
                      (trade_step p (agentTasks_of tms) s a x st))
          = ledger tms (trade_step p (agentTasks_of tms) s a x st)"
    by (rule Cons.IH [OF xs])
  also have "\<dots> = ledger tms st"
    by (rule trade_step_ledger [OF d i x])
  finally show ?case by simp
qed

lemma trade_pass_ledger:
  assumes d: "distinct (map task_key tms)"
    and i: "\<forall>x\<in>set tms. \<exists>c. tm_levelCosts x = getTaskLevelCosts c"
  shows "ledger tms (trade_pass ctx (agentTasks_of tms) st) = ledger tms st"
proof -
  let ?T = "agentTasks_of tms"
  let ?f = "\<lambda>agentId st.
             case find (\<lambda>a. as_id a = agentId) (agentStates ctx) of
               None \<Rightarrow> st
             | Some state \<Rightarrow>
                 fold (trade_step (userProfile ctx) ?T state agentId) (?T agentId) st"
  have step: "ledger tms (?f a st) = ledger tms st" for a st
  proof (cases "find (\<lambda>x. as_id x = a) (agentStates ctx)")
    case None
    then show ?thesis by simp
  next
    case (Some s)
    have "set (?T a) \<subseteq> set (?T a)" by simp
    then have "ledger tms (fold (trade_step (userProfile ctx) ?T s a) (?T a) st) = ledger tms st"
      by (rule fold_trade_step_ledger [OF d i])
    then show ?thesis
      by (simp add: Some)
  qed
  have "ledger tms (fold ?f as st) = ledger tms st" for as
  proof (induction as arbitrary: st)
    case Nil
    then show ?case by simp
  next
    case (Cons a as)
    have "ledger tms (fold ?f as (?f a st)) = ledger tms (?f a st)"
      by (rule Cons.IH)
    also have "\<dots> = ledger tms st"
      by (rule step)
    finally show ?case by simp
  qed
  then show ?thesis
    by (simp add: trade_pass_def)
qed

text \<open>
  How far the rounded shares can exceed the budget: with the four agents once each,
  non-negative weights and satisfaction between 0 and 100, by at most 2.
\<close>

lemma Math_round_le: "Math_round x \<le> x + 1 / 2"
  by (simp add: Math_round_def)

lemma share_bound:
  assumes "0 \<le> T" "0 \<le> w" "0 < W" "0 \<le> s" "s \<le> 100"
  shows "max 0 (Math_round (T * (w / W) * (1 / 2 + (s / 100) * (1 / 2)))) \<le> T * (w / W) + 1 / 2"
proof -
  let ?m = "1 / 2 + (s / 100) * (1 / 2)"
  have m: "0 \<le> ?m" "?m \<le> 1" using assms by simp_all
  have q: "0 \<le> T * (w / W)" using assms by simp
  have "T * (w / W) * ?m \<le> T * (w / W) * 1"
    using q m(2) by (rule mult_left_mono [rotated])
  then have "Math_round (T * (w / W) * ?m) \<le> T * (w / W) + 1 / 2"
    using Math_round_le [of "T * (w / W) * ?m"] by simp
  moreover have "0 \<le> T * (w / W) + 1 / 2" using q by simp
  ultimately show ?thesis by simp
qed

lemma agent_budgets_total:
  assumes ids: "map as_id agents = ALL_AGENT_IDS"
    and w: "\<forall>a\<in>set agents. 0 \<le> currentWeight a"
    and s: "\<forall>a\<in>set agents. 0 \<le> satisfaction a \<and> satisfaction a \<le> 100"
    and T: "0 \<le> totalBudget"
  shows "(\<Sum>a\<leftarrow>ALL_AGENT_IDS. max 0 (calculateAgentBudgets agents totalBudget a))
           \<le> totalBudget + 2"
proof -
  from ids obtain a1 a2 a3 a4 where ag: "agents = [a1, a2, a3, a4]"
    and i: "as_id a1 = ENTJ" "as_id a2 = ISFJ" "as_id a3 = INFJ" "as_id a4 = ESTP"
    by (auto simp add: ALL_AGENT_IDS_def map_eq_Cons_conv)
  let ?sum = "currentWeight a1 + currentWeight a2 + currentWeight a3 + currentWeight a4"
  define W where "W = (if ?sum = 0 then 1 else ?sum)"
  have w': "0 \<le> currentWeight a1" "0 \<le> currentWeight a2" "0 \<le> currentWeight a3" "0 \<le> currentWeight a4"
    using w by (simp_all add: ag)
  have s': "0 \<le> satisfaction a1" "satisfaction a1 \<le> 100" "0 \<le> satisfaction a2" "satisfaction a2 \<le> 100"
    "0 \<le> satisfaction a3" "satisfaction a3 \<le> 100" "0 \<le> satisfaction a4" "satisfaction a4 \<le> 100"
    using s by (simp_all add: ag)
  have Wpos: "0 < W" using w' by (simp add: W_def)
  have ratio: "?sum / W \<le> 1" using w' by (simp add: W_def)
  define B where "B = calculateAgentBudgets agents totalBudget"
  have b: "B ENTJ = Math_round (totalBudget * (currentWeight a1 / W) * (1 / 2 + (satisfaction a1 / 100) * (1 / 2)))"
    "B ISFJ = Math_round (totalBudget * (currentWeight a2 / W) * (1 / 2 + (satisfaction a2 / 100) * (1 / 2)))"
    "B INFJ = Math_round (totalBudget * (currentWeight a3 / W) * (1 / 2 + (satisfaction a3 / 100) * (1 / 2)))"
    "B ESTP = Math_round (totalBudget * (currentWeight a4 / W) * (1 / 2 + (satisfaction a4 / 100) * (1 / 2)))"
    by (simp_all add: B_def calculateAgentBudgets_def ag i W_def Let_def add.assoc)
  have "max 0 (B ENTJ) + max 0 (B ISFJ) + max 0 (B INFJ) + max 0 (B ESTP)
          \<le> (totalBudget * (currentWeight a1 / W) + 1 / 2) + (totalBudget * (currentWeight a2 / W) + 1 / 2)
            + (totalBudget * (currentWeight a3 / W) + 1 / 2) + (totalBudget * (currentWeight a4 / W) + 1 / 2)"
    unfolding b
    by (intro add_mono share_bound T w' s' Wpos)
  also have "\<dots> = totalBudget * (?sum / W) + 2"
    by (simp add: algebra_simps add_divide_distrib)
  also have "\<dots> \<le> totalBudget * 1 + 2"
    using mult_left_mono [OF ratio T] by simp
  finally show ?thesis
    by (simp add: ALL_AGENT_IDS_def B_def)
qed

text \<open>
  C1, as the specification states it: the sum of \<open>tokenInvested\<close> over the results of
  \<^verbatim>\<open>collapseAllTasks\<close> is at most \<open>totalBudget\<close>, also after the accepted trades. Two inputs
  refute it. With a budget of 1000, ENTJ (weight 1) and ISFJ (weight 3) fully satisfied and
  tasks of cost 1250, 400 and 500, the initial allocation spends 950; ENTJ then buys the
  upgrade of its task for 375 tokens against a downgrade that frees 250, and the total is
  1075. With a budget of 2 and four fully satisfied agents of equal weight, every share
  0.5 rounds up to 1 and four tasks of cost 1 spend 4.
\<close>

theorem C1_budget_counterexample:
  "total_invested (co_results (collapseAllTasks
      (sample_context [sample_agent ENTJ 1 100, sample_agent ISFJ 3 100,
                       sample_agent INFJ 0 50, sample_agent ESTP 0 50] (7 / 10))
      [sample_block ''t1'' ENTJ 1250 False, sample_block ''t3'' ISFJ 400 False,
       sample_block ''t2'' ISFJ 500 False] 1000)) = 1075
   \<and> (1000 :: rat) < 1075
   \<and> total_invested (co_results (collapseAllTasks
      (sample_context [sample_agent ENTJ 1 100, sample_agent ISFJ 1 100,
                       sample_agent INFJ 1 100, sample_agent ESTP 1 100] (1 / 2))
      [sample_block ''a'' ENTJ 1 False, sample_block ''b'' ISFJ 1 False,
       sample_block ''c'' INFJ 1 False, sample_block ''d'' ESTP 1 False] 2)) = 4
   \<and> (2 :: rat) < 4"
  by code_simp

text \<open>
  C1, amended: for every agent-state list, every task-block list with pairwise distinct
  ids and every total budget, the sum of \<open>tokenInvested\<close> over the results of
  \<^verbatim>\<open>collapseAllTasks\<close> is at most the sum of the four agents' budgets as
  \<^verbatim>\<open>calculateAgentBudgets\<close> computes them (a negative budget counting as 0), plus, for
  every accepted trade, the difference \<open>tokenNeeded - tokenFreed\<close>. Before the trades each
  agent's tasks are paid out of that agent's own budget and never overdraw it; each
  accepted trade then books the upgrade in full and gives back what the downgrade frees.
\<close>

theorem C1_budget_amended:
  assumes d: "distinct (map b_id blocks)"
  shows "total_invested (co_results (collapseAllTasks ctx blocks totalBudget))
           \<le> (\<Sum>a\<leftarrow>ALL_AGENT_IDS.
                 max 0 (calculateAgentBudgets (agentStates ctx) totalBudget a))
             + sum_list (map trade_delta (co_trades (collapseAllTasks ctx blocks totalBudget)))"
proof -
  let ?B = "calculateAgentBudgets (agentStates ctx) totalBudget"
  let ?tms = "taskMeta_of blocks"
  let ?T = "agentTasks_of ?tms"
  obtain ig ar where ia: "initial_allocation ?B ?T = (ig, ar)"
    by (cases "initial_allocation ?B ?T")
  obtain trs ag ar' where tp: "trade_pass ctx ?T ([], ig, ar) = (trs, ag, ar')"
    by (cases "trade_pass ctx ?T ([], ig, ar)")
  have dk: "distinct (map task_key ?tms)"
    using d by (simp add: taskMeta_of_def task_key_def comp_def)
  have ik: "\<forall>x\<in>set ?tms. \<exists>c. tm_levelCosts x = getTaskLevelCosts c"
    by (auto simp add: taskMeta_of_def)
  have "ledger ?tms (trade_pass ctx ?T ([], ig, ar)) = ledger ?tms ([], ig, ar)"
    by (rule trade_pass_ledger [OF dk ik])
  then have acc: "booked ?tms ag = booked ?tms ig + sum_list (map trade_delta trs)"
    by (simp add: ledger_def tp)
  have out: "co_results (collapseAllTasks ctx blocks totalBudget)
               = map (collapse_result ig ag trs) ?tms"
    "co_trades (collapseAllTasks ctx blocks totalBudget) = trs"
    by (simp_all add: collapseAllTasks_def Let_def ia tp)
  have "total_invested (co_results (collapseAllTasks ctx blocks totalBudget)) = booked ?tms ag"
    by (simp add: out total_invested_def booked_def comp_def tokenInvested_collapse_result)
  also have "\<dots> = booked ?tms ig + sum_list (map trade_delta trs)"
    by (rule acc)
  also have "booked ?tms ig \<le> (\<Sum>a\<leftarrow>ALL_AGENT_IDS. max 0 (?B a))"
    using initial_allocation_spent [OF dk, of ?B] by (simp add: ia booked_def)
  finally show ?thesis
    by (simp add: out)
qed

text \<open>
  The trade of the first refuting input: the budgets are 250 and 750, the one accepted
  trade needs 375 and frees 250, and 1075 tokens are invested.
\<close>

theorem C1_budget_amended_witness:
  "distinct (map b_id [sample_block ''t1'' ENTJ 1250 False, sample_block ''t3'' ISFJ 400 False,
                       sample_block ''t2'' ISFJ 500 False])
   \<and> total_invested (co_results (collapseAllTasks
        (sample_context [sample_agent ENTJ 1 100, sample_agent ISFJ 3 100,
                         sample_agent INFJ 0 50, sample_agent ESTP 0 50] (7 / 10))
        [sample_block ''t1'' ENTJ 1250 False, sample_block ''t3'' ISFJ 400 False,
         sample_block ''t2'' ISFJ 500 False] 1000))
       \<le> (\<Sum>a\<leftarrow>ALL_AGENT_IDS.
             max 0 (calculateAgentBudgets
                      (agentStates (sample_context [sample_agent ENTJ 1 100, sample_agent ISFJ 3 100,
                         sample_agent INFJ 0 50, sample_agent ESTP 0 50] (7 / 10))) 1000 a))
         + sum_list (map trade_delta (co_trades (collapseAllTasks
        (sample_context [sample_agent ENTJ 1 100, sample_agent ISFJ 3 100,
                         sample_agent INFJ 0 50, sample_agent ESTP 0 50] (7 / 10))
        [sample_block ''t1'' ENTJ 1250 False, sample_block ''t3'' ISFJ 400 False,
         sample_block ''t2'' ISFJ 500 False] 1000)))
   \<and> (\<Sum>a\<leftarrow>ALL_AGENT_IDS.
             max 0 (calculateAgentBudgets
                      (agentStates (sample_context [sample_agent ENTJ 1 100, sample_agent ISFJ 3 100,
                         sample_agent INFJ 0 50, sample_agent ESTP 0 50] (7 / 10))) 1000 a)) = 1000
   \<and> map trade_delta (co_trades (collapseAllTasks
        (sample_context [sample_agent ENTJ 1 100, sample_agent ISFJ 3 100,
                         sample_agent INFJ 0 50, sample_agent ESTP 0 50] (7 / 10))
        [sample_block ''t1'' ENTJ 1250 False, sample_block ''t3'' ISFJ 400 False,
         sample_block ''t2'' ISFJ 500 False] 1000)) = [125]"
proof -
  let ?blocks = "[sample_block ''t1'' ENTJ 1250 False, sample_block ''t3'' ISFJ 400 False,
                  sample_block ''t2'' ISFJ 500 False]"
  let ?ctx = "sample_context [sample_agent ENTJ 1 100, sample_agent ISFJ 3 100,
                              sample_agent INFJ 0 50, sample_agent ESTP 0 50] (7 / 10)"
  have d: "distinct (map b_id ?blocks)"
    by (simp add: sample_block_def)
  have b: "(\<Sum>a\<leftarrow>ALL_AGENT_IDS.
              max 0 (calculateAgentBudgets (agentStates ?ctx) 1000 a)) = 1000"
    by code_simp
  have t: "map trade_delta (co_trades (collapseAllTasks ?ctx ?blocks 1000)) = [125]"
    by code_simp
  show ?thesis
    using C1_budget_amended [OF d, of ?ctx 1000] d b t by blast
qed

text \<open>
  C2. Every deadline task is meant to end with a final grade other than D, and never to
  be the offer side of an accepted trade. The second half holds
  (\<open>collapse_offer_not_deadline\<close>). The first does not: the allocation sorts deadline
  tasks first but reserves nothing for them. With the four default agents and a budget of
  1000, ENTJ's share is 188; its deadline task of cost 1000 needs 200 for grade C and is
  left at grade D, a result the engine's own \<^verbatim>\<open>validateCollapseResults\<close> rejects.
\<close>

theorem C2_deadline_task_graded_D:
  "map (\<lambda>r. (cr_isDeadline r, finalGrade r))
     (co_results (collapseAllTasks (sample_context createAllAgentStates (1 / 2))
        [sample_block ''d1'' ENTJ 1000 True] 1000)) = [(True, Grade_D)]
   \<and> validateCollapseResults
     (co_results (collapseAllTasks (sample_context createAllAgentStates (1 / 2))
        [sample_block ''d1'' ENTJ 1000 True] 1000)) = (False, [DeadlineGradeD ''d1''])"
  by code_simp

subsection \<open>The session driver\<close>

lemma length_updates:
  "length (fold (\<lambda>(i, p). updateAgentState i p) patches states) = length states"
  by (induction patches arbitrary: states) (auto simp add: updateAgentState_def)

declare negotiation_loop.simps [simp del]

lemma loop_stop:
  assumes "\<not> (ss_status st = SS_ACTIVE \<and> currentRound st \<le> maxR)"
  shows "negotiation_loop turn maxR st = Inr st"
  by (subst negotiation_loop.simps) (rule if_not_P [OF assms])

lemma loop_failure:
  assumes a: "ss_status st = SS_ACTIVE \<and> currentRound st \<le> maxR"
    and f: "turn (currentRound st) (ss_agentStates st) = ApiFailure"
  shows "negotiation_loop turn maxR st
           = negotiation_loop turn maxR (st\<lparr>currentRound := currentRound st + 1\<rparr>)"
  by (subst negotiation_loop.simps) (simp only: if_P [OF a] f TurnOutcome.case)

lemma loop_turn:
  assumes a: "ss_status st = SS_ACTIVE \<and> currentRound st \<le> maxR"
    and t: "turn (currentRound st) (ss_agentStates st) = TurnApplied patches"
    and s: "states = fold (\<lambda>(i, p). updateAgentState i p) patches (ss_agentStates st)"
  shows "negotiation_loop turn maxR st
     = (case forceConvergence states (of_nat (currentRound st)) (of_nat maxR) 10
               (previousRoundStates st) of
          Inl e \<Rightarrow> Inl e
        | Inr convergence \<Rightarrow>
            if shouldForce convergence
            then Inr (st\<lparr>ss_agentStates := states, ss_status := SS_CONCLUDED\<rparr>)
            else negotiation_loop turn maxR
                   (st\<lparr>ss_agentStates := states,
                       previousRoundStates := Some states,
                       currentRound := currentRound st + 1\<rparr>))"
  by (subst negotiation_loop.simps) (simp only: if_P [OF a] t TurnOutcome.case Let_def s)

lemma negotiation_loop_length:
  "negotiation_loop turn maxR st = Inr st' \<Longrightarrow>
   length (ss_agentStates st') = length (ss_agentStates st)"
proof (induction turn maxR st rule: negotiation_loop.induct)
  case (1 turn maxR st)
  show ?case
  proof (cases "ss_status st = SS_ACTIVE \<and> currentRound st \<le> maxR")
    case False
    then show ?thesis
      using "1.prems" by (simp add: loop_stop)
  next
    case active: True
    show ?thesis
    proof (cases "turn (currentRound st) (ss_agentStates st)")
      case ApiFailure
      then show ?thesis
        using active "1.prems" "1.IH"(1) by (simp add: loop_failure)
    next
      case (TurnApplied patches)
      define states where
        "states = fold (\<lambda>(i, p). updateAgentState i p) patches (ss_agentStates st)"
      have len: "length states = length (ss_agentStates st)"
        by (simp add: states_def length_updates)
      note unfold = loop_turn [of st maxR turn patches states, OF active TurnApplied states_def]
      show ?thesis
      proof (cases "forceConvergence states (of_nat (currentRound st)) (of_nat maxR) 10
                      (previousRoundStates st)")
        case (Inl e)
        then show ?thesis
          using "1.prems" by (simp add: unfold)
      next
        case (Inr c)
        show ?thesis
        proof (cases "shouldForce c")
          case True
          then show ?thesis
            using Inr "1.prems" len by (auto simp add: unfold)
        next
          case False
          have "negotiation_loop turn maxR
                  (st\<lparr>ss_agentStates := states, previousRoundStates := Some states,
                      currentRound := currentRound st + 1\<rparr>) = Inr st'"
            using Inr False "1.prems" by (simp add: unfold)
          then show ?thesis
            using "1.IH"(2) [OF active TurnApplied states_def Inr False] len by simp
        qed
      qed
    qed
  qed
qed

lemma runCouncilSession_result_count:
  assumes "runCouncilSession config turn r = Inr out"
  shows "length (collapseResults (out_report out)) = 4"
proof -
  let ?st0 = "\<lparr>ss_agentStates =
                  map (\<lambda>a. a\<lparr>currentWeight := tokenAllocationToWeights (tokenAllocation config) (as_id a)\<rparr>)
                    createAllAgentStates,
                currentRound = 1, ss_status = SS_ACTIVE, previousRoundStates = None\<rparr>"
  from assms obtain st where l: "negotiation_loop turn (maxRounds config) ?st0 = Inr st"
    by (auto simp add: runCouncilSession_def Let_def split: sum.splits)
  have "length (ss_agentStates st) = 4"
    using negotiation_loop_length [OF l]
    by (simp add: createAllAgentStates_def ALL_AGENT_IDS_def)
  then show ?thesis
    using assms l
    by (auto simp add: runCouncilSession_def Let_def buildSettlementReport_def
        collapseFromAgentStates_def)
qed

lemma forceConvergence_returns:
  assumes "states \<noteq> []"
  shows "\<exists>c. forceConvergence states rnd maxR minR prev = Inr c"
proof -
  obtain d ds where "js_sort dominance_cmp states = d # ds"
    using js_sort_nonempty [OF assms, of dominance_cmp]
    by (cases "js_sort dominance_cmp states") auto
  then show ?thesis
    by (simp add: forceConvergence_def split: prod.splits)
qed

lemma negotiation_loop_returns:
  "ss_agentStates st \<noteq> [] \<Longrightarrow> \<exists>st'. negotiation_loop turn maxR st = Inr st'"
proof (induction turn maxR st rule: negotiation_loop.induct)
  case (1 turn maxR st)
  show ?case
  proof (cases "ss_status st = SS_ACTIVE \<and> currentRound st \<le> maxR")
    case False
    then show ?thesis by (simp add: loop_stop)
  next
    case active: True
    show ?thesis
    proof (cases "turn (currentRound st) (ss_agentStates st)")
      case ApiFailure
      then show ?thesis
        using active "1.prems" "1.IH"(1) by (simp add: loop_failure)
    next
      case (TurnApplied patches)
      define states where
        "states = fold (\<lambda>(i, p). updateAgentState i p) patches (ss_agentStates st)"
      have ne: "states \<noteq> []"
        using "1.prems" length_updates [of patches "ss_agentStates st"]
        by (auto simp add: states_def)
      note unfold = loop_turn [of st maxR turn patches states, OF active TurnApplied states_def]
      obtain c where c: "forceConvergence states (of_nat (currentRound st)) (of_nat maxR) 10
                           (previousRoundStates st) = Inr c"
        using forceConvergence_returns [OF ne] by blast
      show ?thesis
      proof (cases "shouldForce c")
        case True
        then show ?thesis by (simp add: unfold c)
      next
        case False
        then show ?thesis
          using "1.IH"(2) [OF active TurnApplied states_def c False] ne
          by (simp add: unfold c)
      qed
    qed
  qed
qed

lemma runCouncilSession_returns:
  "\<exists>out. runCouncilSession config turn r = Inr out"
proof -
  let ?st0 = "\<lparr>ss_agentStates =
                  map (\<lambda>a. a\<lparr>currentWeight := tokenAllocationToWeights (tokenAllocation config) (as_id a)\<rparr>)
                    createAllAgentStates,
                currentRound = 1, ss_status = SS_ACTIVE, previousRoundStates = None\<rparr>"
  have "ss_agentStates ?st0 \<noteq> []"
    by (simp add: createAllAgentStates_def ALL_AGENT_IDS_def)
  then obtain st where "negotiation_loop turn (maxRounds config) ?st0 = Inr st"
    using negotiation_loop_returns [of ?st0 turn "maxRounds config"] by blast
  then show ?thesis
    by (simp add: runCouncilSession_def Let_def)
qed

text \<open>
  C3. The session driver is meant to return exactly one collapse result per input task.
  In the model the driver always returns (\<open>runCouncilSession_returns\<close>: the loop is
  bounded by the round counter, given that the external service answers every call), but
  its collapse phase calls \<^verbatim>\<open>collapseFromAgentStates\<close>, which yields one result per
  agent and never reads the task list: the report always holds four results
  (\<open>runCouncilSession_result_count\<close>). A session over a single task, with every call to
  the text service failing, reports the four virtual agent tasks.
\<close>

theorem C3_session_results_per_agent:
  "map_sum id (\<lambda>out. map cr_taskId (collapseResults (out_report out)))
     (runCouncilSession (sample_config [sample_block ''t1'' ENTJ 100 True])
        (\<lambda>_ _. ApiFailure) (\<lambda>_. 1 / 2))
   = Inr [''agent_task_ENTJ'', ''agent_task_ISFJ'', ''agent_task_INFJ'', ''agent_task_ESTP'']"
  by code_simp

end
